theory Spec2Isabelle
  imports Main
begin

section \<open>JavaScript values and errors\<close>

text \<open>
  Conventions of the embedding.
  \<^item> A TypeScript type \<open>T | null\<close> is \<open>T option\<close>; \<open>None\<close> is \<open>null\<close>.
  \<^item> An optional property or parameter (\<open>x?: T\<close>) is \<open>T optional\<close>;
    \<open>Undefined\<close> is an absent property.
  \<^item> A \<open>number\<close> that the code requires to be an integer is an \<open>int\<close>; the
    \<open>Number.isInteger\<close> guards of the source are therefore always passed.
  \<^item> A \<open>Date\<close> is an \<open>int\<close> (milliseconds since the epoch).
  \<^item> A string is a list of one-byte characters; the whitespace class \<open>\s\<close> of the
    source is its ASCII part (tab, line feed, vertical tab, form feed, carriage return, space).
  \<^item> A method that mutates its receiver takes the receiver and returns the pair of its
    outcome (\<open>Inl\<close> the thrown error, \<open>Inr\<close> the returned value) and the
    receiver as the call leaves it, also when it throws.
\<close>

datatype 'a optional = Undefined | Defined 'a

text \<open>
  What the code throws: a plain \<open>Error(message)\<close>, or a \<open>DomainException(message, code)\<close>
  (DomainException.ts). The subclasses of \<open>DomainException\<close> fix the code:
  \<open>EntityNotFoundException\<close> has \<open>ENTITY_NOT_FOUND\<close>, \<open>BusinessRuleViolationException\<close>
  has \<open>BUSINESS_RULE_VIOLATION\<close>, \<open>ConcurrencyException\<close> has \<open>CONCURRENCY_CONFLICT\<close>.
\<close>

datatype error =
    Error string
  | DomainException string string

fun errorCode :: "error \<Rightarrow> string option" where
  "errorCode (Error msg) = None"
| "errorCode (DomainException msg c) = Some c"

definition EntityNotFoundException :: "string \<Rightarrow> string \<Rightarrow> error" where
  "EntityNotFoundException entityName i =
     DomainException (entityName @ '' with id '' @ [CHR 0x27] @ i @ [CHR 0x27] @ '' was not found'')
       ''ENTITY_NOT_FOUND''"

text \<open>The ambient values one call reads: the clock and the UUID generator.\<close>

record env =
  now :: int
  currentYear :: int
  newId :: string
  newEventId :: string

subsection \<open>Strings\<close>

definition isWhitespace :: "char \<Rightarrow> bool" where
  "isWhitespace c = (of_char c \<in> {9, 10, 11, 12, 13, 32 :: nat})"

definition trim :: "string \<Rightarrow> string" where
  "trim s = rev (dropWhile isWhitespace (rev (dropWhile isWhitespace s)))"

text \<open>\<open>s.replace(/\s+/g, ' ')\<close>: every maximal run of whitespace becomes one space.\<close>

function collapseSpaces :: "string \<Rightarrow> string" where
  "collapseSpaces [] = []"
| "collapseSpaces (c # cs) =
     (if isWhitespace c then CHR '' '' # collapseSpaces (dropWhile isWhitespace cs)
      else c # collapseSpaces cs)"
  by pat_completeness auto
termination
  by (relation "measure length") (auto simp: length_dropWhile_le less_Suc_eq_le)

definition isDigit :: "char \<Rightarrow> bool" where
  "isDigit c = (48 \<le> (of_char c :: nat) \<and> (of_char c :: nat) \<le> 57)"

definition digitVal :: "char \<Rightarrow> nat" where
  "digitVal c = of_char c - 48"

definition toUpperCase :: "string \<Rightarrow> string" where
  "toUpperCase s =
     map (\<lambda>c. if 97 \<le> (of_char c :: nat) \<and> (of_char c :: nat) \<le> 122
              then char_of ((of_char c :: nat) - 32) else c) s"

fun showNat :: "nat \<Rightarrow> string" where
  "showNat n =
     (if n < 10 then [char_of (48 + n)]
      else showNat (n div 10) @ [char_of (48 + n mod 10)])"

declare showNat.simps [simp del]

definition showInt :: "int \<Rightarrow> string" where
  "showInt i = (if i < 0 then CHR ''-'' # showNat (nat (- i)) else showNat (nat i))"

definition ConcurrencyException :: "string \<Rightarrow> string \<Rightarrow> int \<Rightarrow> int \<Rightarrow> error" where
  "ConcurrencyException entityName i expectedVersion actualVersion =
     DomainException
       (''Concurrency conflict for '' @ entityName @ '' '' @ [CHR 0x27] @ i @ [CHR 0x27]
          @ '': expected version '' @ showInt expectedVersion @ '', but found ''
          @ showInt actualVersion)
       ''CONCURRENCY_CONFLICT''"

section \<open>Value objects\<close>

subsection \<open>ReadingStatus (ReadingStatus.ts)\<close>

datatype ReadingStatus = TO_READ | READING | FINISHED | ABANDONED

fun statusString :: "ReadingStatus \<Rightarrow> string" where
  "statusString TO_READ = ''TO_READ''"
| "statusString READING = ''READING''"
| "statusString FINISHED = ''FINISHED''"
| "statusString ABANDONED = ''ABANDONED''"

definition ReadingStatus_fromString :: "string \<Rightarrow> error + ReadingStatus" where
  "ReadingStatus_fromString v =
     (if v = ''TO_READ'' then Inr TO_READ
      else if v = ''READING'' then Inr READING
      else if v = ''FINISHED'' then Inr FINISHED
      else if v = ''ABANDONED'' then Inr ABANDONED
      else Inl (Error (''Invalid reading status: '' @ v)))"

fun getAllowedTransitions :: "ReadingStatus \<Rightarrow> ReadingStatus list" where
  "getAllowedTransitions TO_READ = [READING]"
| "getAllowedTransitions READING = [FINISHED, ABANDONED, TO_READ]"
| "getAllowedTransitions FINISHED = [READING]"
| "getAllowedTransitions ABANDONED = [READING, TO_READ]"

definition canTransition :: "ReadingStatus \<Rightarrow> ReadingStatus \<Rightarrow> bool" where
  "canTransition from to = (to \<in> set (getAllowedTransitions from))"

subsection \<open>Title, PageCount, Rating, ISBN\<close>

definition Title_normalize :: "string \<Rightarrow> string" where
  "Title_normalize t = collapseSpaces (trim t)"

definition Title_create :: "string \<Rightarrow> error + string" where
  "Title_create t =
     (if t = [] then Inl (DomainException ''Title is required'' ''INVALID_TITLE'')
      else let normalized = Title_normalize t in
        if length normalized < 1 then
          Inl (DomainException ''Title cannot be empty'' ''INVALID_TITLE'')
        else if length normalized > 500 then
          Inl (DomainException ''Title cannot exceed 500 characters'' ''INVALID_TITLE'')
        else Inr normalized)"

definition PageCount_create :: "int \<Rightarrow> error + int" where
  "PageCount_create pages =
     (if pages < 1 then
        Inl (DomainException ''Page count must be at least 1'' ''INVALID_PAGE_COUNT'')
      else if pages > 50000 then
        Inl (DomainException ''Page count cannot exceed 50000'' ''INVALID_PAGE_COUNT'')
      else Inr pages)"

definition Rating_create :: "int \<Rightarrow> error + int" where
  "Rating_create r =
     (if r < 1 \<or> r > 5 then
        Inl (DomainException ''Rating must be between 1 and 5'' ''INVALID_RATING'')
      else Inr r)"

definition ISBN_normalize :: "string \<Rightarrow> string" where
  "ISBN_normalize s = toUpperCase (filter (\<lambda>c. c \<noteq> CHR ''-'' \<and> \<not> isWhitespace c) s)"

definition validateISBN10 :: "string \<Rightarrow> bool" where
  "validateISBN10 s =
     (if \<not> (length s = 10 \<and> list_all isDigit (take 9 s)
             \<and> (isDigit (s ! 9) \<or> s ! 9 = CHR ''X'')) then False
      else
        let sum = sum_list (map (\<lambda>i. digitVal (s ! i) * (10 - i)) [0..<9]);
            check = (if s ! 9 = CHR ''X'' then 10 else digitVal (s ! 9))
        in (sum + check) mod 11 = 0)"

definition validateISBN13 :: "string \<Rightarrow> bool" where
  "validateISBN13 s =
     (if \<not> (length s = 13 \<and> list_all isDigit s) then False
      else
        let sum = sum_list (map (\<lambda>i. if i mod 2 = 0 then digitVal (s ! i)
                                       else digitVal (s ! i) * 3) [0..<12]);
            check = (10 - sum mod 10) mod 10
        in check = digitVal (s ! 12))"

definition ISBN_isValid :: "string \<Rightarrow> bool" where
  "ISBN_isValid s =
     (let normalized = ISBN_normalize s in
        if length normalized = 10 then validateISBN10 normalized
        else if length normalized = 13 then validateISBN13 normalized
        else False)"

definition ISBN_create :: "string \<Rightarrow> error + string" where
  "ISBN_create s =
     (let normalized = ISBN_normalize s in
        if \<not> ISBN_isValid normalized then
          Inl (DomainException (''Invalid ISBN: '' @ s) ''INVALID_ISBN'')
        else Inr normalized)"

section \<open>Entities and domain events\<close>

text \<open>Quote (Quote.ts) and Note (Note.ts): an identity and private fields.\<close>

record Quote =
  q_id :: string
  q_bookId :: string
  q_content :: string
  q_page :: "int option"
  q_createdAt :: int

record Note =
  n_id :: string
  n_bookId :: string
  n_content :: string
  n_chapter :: "string option"
  n_createdAt :: int
  n_updatedAt :: int

definition Quote_create :: "env \<Rightarrow> string \<Rightarrow> string \<Rightarrow> int optional \<Rightarrow> error + Quote" where
  "Quote_create e bid content page =
     (if content = [] \<or> length (trim content) = 0 then
        Inl (DomainException ''Quote content cannot be empty'' ''INVALID_QUOTE'')
      else if length content > 5000 then
        Inl (DomainException ''Quote content cannot exceed 5000 characters'' ''INVALID_QUOTE'')
      else if (case page of Undefined \<Rightarrow> False | Defined p \<Rightarrow> p < 1) then
        Inl (DomainException ''Page number must be a positive integer'' ''INVALID_QUOTE'')
      else
        Inr \<lparr> q_id = newId e, q_bookId = bid, q_content = trim content,
              q_page = (case page of Undefined \<Rightarrow> None | Defined p \<Rightarrow> Some p),
              q_createdAt = now e \<rparr>)"

definition Note_create :: "env \<Rightarrow> string \<Rightarrow> string \<Rightarrow> string optional \<Rightarrow> error + Note" where
  "Note_create e bid content chapter =
     (if content = [] \<or> length (trim content) = 0 then
        Inl (DomainException ''Note content cannot be empty'' ''INVALID_NOTE'')
      else if length content > 10000 then
        Inl (DomainException ''Note content cannot exceed 10000 characters'' ''INVALID_NOTE'')
      else if (case chapter of Undefined \<Rightarrow> False | Defined c \<Rightarrow> length c > 255) then
        Inl (DomainException ''Chapter name cannot exceed 255 characters'' ''INVALID_NOTE'')
      else
        Inr \<lparr> n_id = newId e, n_bookId = bid, n_content = trim content,
              n_chapter = (case chapter of Undefined \<Rightarrow> None | Defined c \<Rightarrow> Some (trim c)),
              n_createdAt = now e, n_updatedAt = now e \<rparr>)"

text \<open>
  \<open>Note.updateContent\<close>: the one place where a note's \<open>updatedAt\<close> departs from its
  \<open>createdAt\<close>. \<open>Book.notes\<close> hands out the aggregate's own \<open>Note\<close> objects (a
  frozen copy of the array, not of its elements), so a caller reaches it.
\<close>

definition Note_updateContent :: "env \<Rightarrow> string \<Rightarrow> Note \<Rightarrow> (error + unit) \<times> Note" where
  "Note_updateContent e content n =
     (if content = [] \<or> length (trim content) = 0 then
        (Inl (DomainException ''Note content cannot be empty'' ''INVALID_NOTE''), n)
      else if length content > 10000 then
        (Inl (DomainException ''Note content cannot exceed 10000 characters'' ''INVALID_NOTE''), n)
      else (Inr (), n\<lparr> n_content := trim content, n_updatedAt := now e \<rparr>))"

text \<open>The payloads of the events (domain/events).\<close>

record BookCreatedEventPayload =
  bc_bookId :: string
  bc_title :: string
  bc_authorId :: string
  bc_pageCount :: int
  bc_isbn :: "string option"
  bc_yearRead :: "int option"
  bc_status :: string

text \<open>
  The sparse change-set of a \<open>BookUpdatedEvent\<close>: a key is present (\<open>Defined\<close>) or
  absent. \<open>coverUrl\<close> is not in the declared payload type, but \<open>Book.updateDetails\<close>
  writes it into the object it casts to that type.
\<close>

record Changes =
  ch_title :: "string optional"
  ch_pageCount :: "int optional"
  ch_yearRead :: "int option optional"
  ch_rating :: "int option optional"
  ch_coverUrl :: "string option optional"
  ch_status :: "string optional"

definition noChanges :: Changes where
  "noChanges = \<lparr> ch_title = Undefined, ch_pageCount = Undefined, ch_yearRead = Undefined,
       ch_rating = Undefined, ch_coverUrl = Undefined, ch_status = Undefined \<rparr>"

text \<open>\<open>Object.keys(changes)\<close>, in the order in which \<open>updateDetails\<close> assigns them.\<close>

definition changeKeys :: "Changes \<Rightarrow> string list" where
  "changeKeys c =
     (if ch_title c = Undefined then [] else [''title'']) @
     (if ch_pageCount c = Undefined then [] else [''pageCount'']) @
     (if ch_yearRead c = Undefined then [] else [''yearRead'']) @
     (if ch_rating c = Undefined then [] else [''rating'']) @
     (if ch_coverUrl c = Undefined then [] else [''coverUrl'']) @
     (if ch_status c = Undefined then [] else [''status''])"

record BookUpdatedEventPayload =
  bu_bookId :: string
  bu_changes :: Changes
  bu_updatedAt :: int

record BookFinishedEventPayload =
  bf_bookId :: string
  bf_authorId :: string
  bf_title :: string
  bf_pageCount :: int
  bf_yearRead :: int
  bf_rating :: "int option"
  bf_finishedAt :: int

record QuoteAddedEventPayload =
  qa_bookId :: string
  qa_quoteId :: string
  qa_content :: string
  qa_page :: "int option"

record BookDeletedEventPayload =
  bd_bookId :: string
  bd_authorId :: string
  bd_pageCount :: int
  bd_yearRead :: "int option"

datatype EventPayload =
    BookCreatedEvent BookCreatedEventPayload
  | BookUpdatedEvent BookUpdatedEventPayload
  | BookFinishedEvent BookFinishedEventPayload
  | QuoteAddedEvent QuoteAddedEventPayload
  | BookDeletedEvent BookDeletedEventPayload

text \<open>
  \<open>DomainEvent\<close> (DomainEvent.ts): the subclass and its payload, the generated
  \<open>eventId\<close> and \<open>occurredAt\<close>. The aggregate passes no metadata, so
  \<open>correlationId\<close>, \<open>causationId\<close> and \<open>userId\<close> are undefined.
\<close>

record DomainEvent =
  eventId :: string
  occurredAt :: int
  payload :: EventPayload

fun EVENT_NAME :: "EventPayload \<Rightarrow> string" where
  "EVENT_NAME (BookCreatedEvent p) = ''library.book.created''"
| "EVENT_NAME (BookUpdatedEvent p) = ''library.book.updated''"
| "EVENT_NAME (BookFinishedEvent p) = ''library.book.finished''"
| "EVENT_NAME (QuoteAddedEvent p) = ''library.book.quote_added''"
| "EVENT_NAME (BookDeletedEvent p) = ''library.book.deleted''"

definition eventName :: "DomainEvent \<Rightarrow> string" where
  "eventName ev = EVENT_NAME (payload ev)"

fun getAggregateId :: "DomainEvent \<Rightarrow> string" where
  "getAggregateId ev =
     (case payload ev of
        BookCreatedEvent p \<Rightarrow> bc_bookId p
      | BookUpdatedEvent p \<Rightarrow> bu_bookId p
      | BookFinishedEvent p \<Rightarrow> bf_bookId p
      | QuoteAddedEvent p \<Rightarrow> qa_bookId p
      | BookDeletedEvent p \<Rightarrow> bd_bookId p)"

definition newEvent :: "env \<Rightarrow> EventPayload \<Rightarrow> DomainEvent" where
  "newEvent e p = \<lparr> eventId = newEventId e, occurredAt = now e, payload = p \<rparr>"

section \<open>The Book aggregate (AggregateRoot.ts, Book.ts)\<close>

text \<open>
  \<open>bookId\<close> is the entity's \<open>_id\<close>; \<open>version\<close> and \<open>domainEvents\<close> are
  \<open>_version\<close> and \<open>_domainEvents\<close> of \<open>AggregateRoot\<close>; the other fields are
  \<open>BookState\<close>, each value object by its \<open>value\<close> (\<open>notes'\<close> is the
  field \<open>notes\<close>, a reserved word here).
\<close>

record Book =
  bookId :: string
  title :: string
  authorId :: string
  pageCount :: int
  isbn :: "string option"
  yearRead :: "int option"
  status :: ReadingStatus
  rating :: "int option"
  coverUrl :: "string option"
  quotes :: "Quote list"
  notes' :: "Note list"
  createdAt :: int
  updatedAt :: int
  version :: int
  domainEvents :: "DomainEvent list"

definition addDomainEvent :: "DomainEvent \<Rightarrow> Book \<Rightarrow> Book" where
  "addDomainEvent ev b = b\<lparr> domainEvents := domainEvents b @ [ev] \<rparr>"

definition clearDomainEvents :: "Book \<Rightarrow> Book" where
  "clearDomainEvents b = b\<lparr> domainEvents := [] \<rparr>"

definition hasUncommittedEvents :: "Book \<Rightarrow> bool" where
  "hasUncommittedEvents b = (length (domainEvents b) > 0)"

definition incrementVersion :: "Book \<Rightarrow> Book" where
  "incrementVersion b = b\<lparr> version := version b + 1 \<rparr>"

definition validateYearRead :: "env \<Rightarrow> int \<Rightarrow> error + unit" where
  "validateYearRead e year =
     (if year < 1900 \<or> year > currentYear e + 1 then
        Inl (DomainException (''Year must be between 1900 and '' @ showInt (currentYear e + 1))
               ''INVALID_YEAR'')
      else Inr ())"

record CreateBookProps =
  p_title :: string
  p_authorId :: string
  p_pageCount :: int
  p_isbn :: "string optional"
  p_yearRead :: "int optional"
  p_status :: "ReadingStatus optional"
  p_rating :: "int optional"
  p_coverUrl :: "string optional"

text \<open>
  \<open>Book.create\<close>. The truthiness tests of the source are written out: \<open>props.isbn ?\<close>
  is false for an absent and for an empty string, \<open>props.rating ?\<close> for an absent rating
  and for 0, \<open>x || null\<close> turns the empty string into null.
\<close>

definition create :: "env \<Rightarrow> CreateBookProps \<Rightarrow> error + Book" where
  "create e props =
     (case Title_create (p_title props) of Inl err \<Rightarrow> Inl err | Inr title' \<Rightarrow>
      case PageCount_create (p_pageCount props) of Inl err \<Rightarrow> Inl err | Inr pageCount' \<Rightarrow>
      case (case p_isbn props of
              Undefined \<Rightarrow> Inr None
            | Defined s \<Rightarrow> if s = [] then Inr None else map_sum (\<lambda>x. x) Some (ISBN_create s))
      of Inl err \<Rightarrow> Inl err | Inr isbn' \<Rightarrow>
      case (case p_rating props of
              Undefined \<Rightarrow> Inr None
            | Defined r \<Rightarrow> if r = 0 then Inr None else map_sum (\<lambda>x. x) Some (Rating_create r))
      of Inl err \<Rightarrow> Inl err | Inr rating' \<Rightarrow>
      let status' = (case p_status props of Undefined \<Rightarrow> TO_READ | Defined s \<Rightarrow> s);
          yearRead' = (case p_yearRead props of Undefined \<Rightarrow> None | Defined y \<Rightarrow> Some y)
      in
      if p_authorId props = [] \<or> length (trim (p_authorId props)) = 0 then
        Inl (DomainException ''Author ID is required'' ''INVALID_BOOK'')
      else
      case (case yearRead' of None \<Rightarrow> Inr () | Some y \<Rightarrow> validateYearRead e y)
      of Inl err \<Rightarrow> Inl err | Inr u \<Rightarrow>
      if status' = FINISHED \<and> yearRead' = None then
        Inl (DomainException ''Year read is required when book status is FINISHED''
               ''INVALID_BOOK'')
      else
        let book = \<lparr> bookId = newId e, title = title', authorId = trim (p_authorId props),
                      pageCount = pageCount', isbn = isbn', yearRead = yearRead',
                      status = status', rating = rating',
                      coverUrl = (case p_coverUrl props of
                                    Undefined \<Rightarrow> None
                                  | Defined u \<Rightarrow> if trim u = [] then None else Some (trim u)),
                      quotes = [], notes' = [], createdAt = now e, updatedAt = now e,
                      version = 0, domainEvents = [] \<rparr>
        in Inr (addDomainEvent
                  (newEvent e (BookCreatedEvent
                     \<lparr> bc_bookId = newId e, bc_title = title', bc_authorId = authorId book,
                       bc_pageCount = pageCount', bc_isbn = isbn', bc_yearRead = yearRead',
                       bc_status = statusString status' \<rparr>))
                  book))"

text \<open>
  \<open>Book.reconstitute\<close>: no validation, no event; \<open>BookId.fromString\<close> and
  \<open>ReadingStatusUtils.fromString\<close> throw on an empty id and on an unknown status, and
  the truthiness tests turn an empty ISBN and a rating of 0 into null.
\<close>

record ReconstituteProps =
  r_id :: string
  r_title :: string
  r_authorId :: string
  r_pageCount :: int
  r_isbn :: "string option"
  r_yearRead :: "int option"
  r_status :: string
  r_rating :: "int option"
  r_coverUrl :: "string option"
  r_quotes :: "Quote list"
  r_notes :: "Note list"
  r_version :: int
  r_createdAt :: int
  r_updatedAt :: int

definition BookId_fromString :: "string \<Rightarrow> error + string" where
  "BookId_fromString v =
     (if v = [] \<or> length (trim v) = 0 then Inl (Error ''BookId cannot be empty'') else Inr v)"

definition reconstitute :: "ReconstituteProps \<Rightarrow> error + Book" where
  "reconstitute props =
     (case ReadingStatus_fromString (r_status props) of Inl err \<Rightarrow> Inl err | Inr status' \<Rightarrow>
      case BookId_fromString (r_id props) of Inl err \<Rightarrow> Inl err | Inr id' \<Rightarrow>
        Inr \<lparr> bookId = id', title = r_title props, authorId = r_authorId props,
              pageCount = r_pageCount props,
              isbn = (case r_isbn props of None \<Rightarrow> None
                      | Some s \<Rightarrow> if s = [] then None else Some s),
              yearRead = r_yearRead props, status = status',
              rating = (case r_rating props of None \<Rightarrow> None
                        | Some r \<Rightarrow> if r = 0 then None else Some r),
              coverUrl = r_coverUrl props, quotes = r_quotes props, notes' = r_notes props,
              createdAt = r_createdAt props, updatedAt = r_updatedAt props,
              version = r_version props, domainEvents = [] \<rparr>)"

subsection \<open>Book.updateDetails\<close>

record DetailChanges =
  dc_title :: "string optional"
  dc_pageCount :: "int optional"
  dc_yearRead :: "int option optional"
  dc_rating :: "int option optional"
  dc_coverUrl :: "string option optional"

text \<open>
  The five \<open>if (changes.f !== undefined)\<close> blocks of \<open>updateDetails\<close>, in the order of
  the source. Each takes the aggregate and the \<open>actualChanges\<close> collected so far; a block
  throws before it assigns anything.
\<close>

definition updateTitle :: "string optional \<Rightarrow> Book \<times> Changes \<Rightarrow> error + Book \<times> Changes" where
  "updateTitle t s =
     (case t of
        Undefined \<Rightarrow> Inr s
      | Defined v \<Rightarrow>
          (case Title_create v of
             Inl err \<Rightarrow> Inl err
           | Inr newTitle \<Rightarrow>
               if newTitle \<noteq> title (fst s) then
                 Inr ((fst s)\<lparr> title := newTitle \<rparr>, (snd s)\<lparr> ch_title := Defined newTitle \<rparr>)
               else Inr s))"

definition updatePageCount :: "int optional \<Rightarrow> Book \<times> Changes \<Rightarrow> error + Book \<times> Changes" where
  "updatePageCount n s =
     (case n of
        Undefined \<Rightarrow> Inr s
      | Defined v \<Rightarrow>
          (case PageCount_create v of
             Inl err \<Rightarrow> Inl err
           | Inr newPageCount \<Rightarrow>
               if newPageCount \<noteq> pageCount (fst s) then
                 Inr ((fst s)\<lparr> pageCount := newPageCount \<rparr>,
                      (snd s)\<lparr> ch_pageCount := Defined newPageCount \<rparr>)
               else Inr s))"

definition updateYearRead ::
  "env \<Rightarrow> int option optional \<Rightarrow> Book \<times> Changes \<Rightarrow> error + Book \<times> Changes" where
  "updateYearRead e y s =
     (case y of
        Undefined \<Rightarrow> Inr s
      | Defined v \<Rightarrow>
          (case (case v of None \<Rightarrow> Inr () | Some year \<Rightarrow> validateYearRead e year) of
             Inl err \<Rightarrow> Inl err
           | Inr u \<Rightarrow>
               if v \<noteq> yearRead (fst s) then
                 Inr ((fst s)\<lparr> yearRead := v \<rparr>, (snd s)\<lparr> ch_yearRead := Defined v \<rparr>)
               else Inr s))"

text \<open>
  The rating block compares \<open>newRating?.value\<close> with \<open>this.state.rating?.value ?? null\<close>
  by \<open>!==\<close>. Optional chaining on a null \<open>newRating\<close> gives \<open>undefined\<close>, while the
  right-hand side has been defaulted to \<open>null\<close>; strict inequality tells the two apart.
\<close>

datatype jsvalue = JSUndefined | JSNull | JSNumber int

definition optionalChainValue :: "int option \<Rightarrow> jsvalue" where
  "optionalChainValue r = (case r of None \<Rightarrow> JSUndefined | Some v \<Rightarrow> JSNumber v)"

definition valueOrNull :: "int option \<Rightarrow> jsvalue" where
  "valueOrNull r = (case r of None \<Rightarrow> JSNull | Some v \<Rightarrow> JSNumber v)"

definition updateRating ::
  "int option optional \<Rightarrow> Book \<times> Changes \<Rightarrow> error + Book \<times> Changes" where
  "updateRating r s =
     (case r of
        Undefined \<Rightarrow> Inr s
      | Defined v \<Rightarrow>
          (case (case v of None \<Rightarrow> Inr None | Some n \<Rightarrow> map_sum (\<lambda>x. x) Some (Rating_create n)) of
             Inl err \<Rightarrow> Inl err
           | Inr newRating \<Rightarrow>
               let currentRating = valueOrNull (rating (fst s)) in
               if optionalChainValue newRating \<noteq> currentRating then
                 Inr ((fst s)\<lparr> rating := newRating \<rparr>, (snd s)\<lparr> ch_rating := Defined newRating \<rparr>)
               else Inr s))"

definition updateCoverUrl :: "string option optional \<Rightarrow> Book \<times> Changes \<Rightarrow> Book \<times> Changes" where
  "updateCoverUrl c s =
     (case c of
        Undefined \<Rightarrow> s
      | Defined v \<Rightarrow>
          let newCoverUrl = (case v of None \<Rightarrow> None
                             | Some u \<Rightarrow> if trim u = [] then None else Some (trim u)) in
          if newCoverUrl \<noteq> coverUrl (fst s) then
            ((fst s)\<lparr> coverUrl := newCoverUrl \<rparr>, (snd s)\<lparr> ch_coverUrl := Defined newCoverUrl \<rparr>)
          else s)"

definition updateDetails :: "env \<Rightarrow> DetailChanges \<Rightarrow> Book \<Rightarrow> (error + unit) \<times> Book" where
  "updateDetails e changes b =
     (case updateTitle (dc_title changes) (b, noChanges) of
        Inl err \<Rightarrow> (Inl err, b) | Inr s1 \<Rightarrow>
      case updatePageCount (dc_pageCount changes) s1 of
        Inl err \<Rightarrow> (Inl err, fst s1) | Inr s2 \<Rightarrow>
      case updateYearRead e (dc_yearRead changes) s2 of
        Inl err \<Rightarrow> (Inl err, fst s2) | Inr s3 \<Rightarrow>
      case updateRating (dc_rating changes) s3 of
        Inl err \<Rightarrow> (Inl err, fst s3) | Inr s4 \<Rightarrow>
      let s5 = updateCoverUrl (dc_coverUrl changes) s4 in
      if length (changeKeys (snd s5)) > 0 then
        let b' = (fst s5)\<lparr> updatedAt := now e \<rparr> in
        (Inr (), addDomainEvent
                   (newEvent e (BookUpdatedEvent
                      \<lparr> bu_bookId = bookId b', bu_changes = snd s5,
                        bu_updatedAt = updatedAt b' \<rparr>))
                   b')
      else (Inr (), fst s5))"

subsection \<open>Book.changeStatus, Book.markAsFinished, Book.addQuote, Book.addNote\<close>

definition changeStatus :: "env \<Rightarrow> ReadingStatus \<Rightarrow> Book \<Rightarrow> (error + unit) \<times> Book" where
  "changeStatus e newStatus b =
     (if status b = newStatus then (Inr (), b)
      else if \<not> canTransition (status b) newStatus then
        (Inl (DomainException
                (''Cannot transition from '' @ statusString (status b) @ '' to ''
                   @ statusString newStatus)
                ''INVALID_STATUS_TRANSITION''), b)
      else
        let b1 = b\<lparr> status := newStatus, updatedAt := now e \<rparr>;
            b2 = addDomainEvent
                   (newEvent e (BookUpdatedEvent
                      \<lparr> bu_bookId = bookId b1,
                        bu_changes = noChanges\<lparr> ch_status := Defined (statusString newStatus) \<rparr>,
                        bu_updatedAt = updatedAt b1 \<rparr>))
                   b1
        in if newStatus = FINISHED \<and> yearRead b2 = None then
             (Inr (), b2\<lparr> yearRead := Some (currentYear e) \<rparr>)
           else (Inr (), b2))"

definition markAsFinished ::
  "env \<Rightarrow> int \<Rightarrow> int optional \<Rightarrow> Book \<Rightarrow> (error + unit) \<times> Book" where
  "markAsFinished e year r b =
     (case validateYearRead e year of
        Inl err \<Rightarrow> (Inl err, b)
      | Inr u \<Rightarrow>
          (case (case r of Undefined \<Rightarrow> Inr (rating b)
                 | Defined n \<Rightarrow> map_sum (\<lambda>x. x) Some (Rating_create n)) of
             Inl err \<Rightarrow> (Inl err, b)
           | Inr newRating \<Rightarrow>
               let b1 = b\<lparr> status := FINISHED, yearRead := Some year, rating := newRating,
                            updatedAt := now e \<rparr>
               in (Inr (), addDomainEvent
                             (newEvent e (BookFinishedEvent
                                \<lparr> bf_bookId = bookId b1, bf_authorId = authorId b1,
                                  bf_title = title b1, bf_pageCount = pageCount b1,
                                  bf_yearRead = year, bf_rating = newRating,
                                  bf_finishedAt = updatedAt b1 \<rparr>))
                             b1)))"

definition addQuote :: "env \<Rightarrow> string \<Rightarrow> int optional \<Rightarrow> Book \<Rightarrow> (error + Quote) \<times> Book" where
  "addQuote e content page b =
     (case Quote_create e (bookId b) content page of
        Inl err \<Rightarrow> (Inl err, b)
      | Inr quote \<Rightarrow>
          let b1 = b\<lparr> quotes := quotes b @ [quote], updatedAt := now e \<rparr>
          in (Inr quote, addDomainEvent
                           (newEvent e (QuoteAddedEvent
                              \<lparr> qa_bookId = bookId b1, qa_quoteId = q_id quote,
                                qa_content = q_content quote, qa_page = q_page quote \<rparr>))
                           b1))"

definition addNote :: "env \<Rightarrow> string \<Rightarrow> string optional \<Rightarrow> Book \<Rightarrow> (error + Note) \<times> Book" where
  "addNote e content chapter b =
     (case Note_create e (bookId b) content chapter of
        Inl err \<Rightarrow> (Inl err, b)
      | Inr n \<Rightarrow> (Inr n, b\<lparr> notes' := notes' b @ [n], updatedAt := now e \<rparr>))"

section \<open>The event publisher (rabbitmq.ts)\<close>

record EventMetadata =
  md_eventId :: string
  md_occurredAt :: int
  md_correlationId :: "string optional"
  md_causationId :: "string optional"
  md_userId :: "string optional"

record EventJSON =
  j_eventId :: string
  j_eventName :: string
  j_payload :: EventPayload
  j_occurredAt :: int
  j_metadata :: EventMetadata

definition toJSON :: "DomainEvent \<Rightarrow> EventJSON" where
  "toJSON ev =
     \<lparr> j_eventId = eventId ev, j_eventName = eventName ev, j_payload = payload ev,
       j_occurredAt = occurredAt ev,
       j_metadata = \<lparr> md_eventId = eventId ev, md_occurredAt = occurredAt ev,
                      md_correlationId = Undefined, md_causationId = Undefined,
                      md_userId = Undefined \<rparr> \<rparr>"

text \<open>
  One call of \<open>ch.publish(exchange, routingKey, content, options)\<close>. The content is the
  event's \<open>toJSON()\<close>, kept as a value rather than as the bytes of its JSON text.
\<close>

record Message =
  m_exchange :: string
  m_routingKey :: string
  m_content :: EventJSON
  m_persistent :: bool
  m_contentType :: string
  m_timestamp :: int
  m_messageId :: string
  m_headerEventName :: string
  m_headerAggregateId :: string
  m_headerCorrelationId :: "string optional"

definition EXCHANGE_NAME :: string where
  "EXCHANGE_NAME = ''library.events''"

text \<open>
  The module's \<open>channel\<close> variable: \<open>None\<close> while it is null, otherwise the messages
  handed to the broker so far, oldest first.
\<close>

type_synonym channel = "Message list option"

definition getChannel :: "channel \<Rightarrow> error + Message list" where
  "getChannel ch =
     (case ch of
        None \<Rightarrow> Inl (Error ''RabbitMQ not connected. Call connectRabbitMQ() first.'')
      | Some ms \<Rightarrow> Inr ms)"

definition toMessage :: "env \<Rightarrow> DomainEvent \<Rightarrow> Message" where
  "toMessage e ev =
     \<lparr> m_exchange = EXCHANGE_NAME, m_routingKey = eventName ev, m_content = toJSON ev,
       m_persistent = True, m_contentType = ''application/json'', m_timestamp = now e,
       m_messageId = eventId ev, m_headerEventName = eventName ev,
       m_headerAggregateId = getAggregateId ev,
       m_headerCorrelationId = md_correlationId (j_metadata (toJSON ev)) \<rparr>"

definition publish :: "env \<Rightarrow> DomainEvent \<Rightarrow> channel \<Rightarrow> (error + unit) \<times> channel" where
  "publish e ev ch =
     (case getChannel ch of
        Inl err \<Rightarrow> (Inl err, ch)
      | Inr ms \<Rightarrow> (Inr (), Some (ms @ [toMessage e ev])))"

text \<open>\<open>for (const event of events) await this.publish(event)\<close>: the loop stops at the first throw.\<close>

fun publishAll :: "env \<Rightarrow> DomainEvent list \<Rightarrow> channel \<Rightarrow> (error + unit) \<times> channel" where
  "publishAll e [] ch = (Inr (), ch)"
| "publishAll e (ev # evs) ch =
     (case publish e ev ch of
        (Inl err, ch') \<Rightarrow> (Inl err, ch')
      | (Inr u, ch') \<Rightarrow> publishAll e evs ch')"

section \<open>The read model and its projections (ReadModels.ts, BookProjections.ts)\<close>

record QuoteDocument =
  qd_id :: string
  qd_content :: string
  qd_page :: "int option"
  qd_createdAt :: int

record NoteDocument =
  nd_id :: string
  nd_content :: string
  nd_chapter :: "string option"
  nd_createdAt :: int

record BookDocument =
  d_id :: string
  d_title :: string
  d_authorId :: string
  d_authorName :: string
  d_pageCount :: int
  d_isbn :: "string option"
  d_yearRead :: "int option"
  d_status :: string
  d_rating :: "int option"
  d_coverUrl :: "string option"
  d_quotes :: "QuoteDocument list"
  d_notes :: "NoteDocument list"
  d_quotesCount :: int
  d_notesCount :: int
  d_createdAt :: int
  d_updatedAt :: int

text \<open>
  The \<open>books\<close> collection, in natural order, and the three driver calls the projections
  make. \<open>_id\<close> is the collection's unique key: \<open>insertOne\<close> of a document whose
  \<open>_id\<close> is taken is rejected with a duplicate-key error. \<open>updateOne\<close> and
  \<open>deleteOne\<close> with the filter \<open>{ _id: i }\<close> act on the first match and do nothing
  when there is none.
\<close>

type_synonym collection = "BookDocument list"

definition insertOne :: "BookDocument \<Rightarrow> collection \<Rightarrow> (error + unit) \<times> collection" where
  "insertOne doc coll =
     (if d_id doc \<in> set (map d_id coll) then
        (Inl (Error ''E11000 duplicate key error collection: books''), coll)
      else (Inr (), coll @ [doc]))"

fun updateOne :: "string \<Rightarrow> (BookDocument \<Rightarrow> BookDocument) \<Rightarrow> collection \<Rightarrow> collection" where
  "updateOne i f [] = []"
| "updateOne i f (d # ds) = (if d_id d = i then f d # ds else d # updateOne i f ds)"

fun deleteOne :: "string \<Rightarrow> collection \<Rightarrow> collection" where
  "deleteOne i [] = []"
| "deleteOne i (d # ds) = (if d_id d = i then ds else d # deleteOne i ds)"

definition fetchAuthorName :: "string \<Rightarrow> string" where
  "fetchAuthorName a = ''Author '' @ take 8 a"

definition onBookCreated ::
  "env \<Rightarrow> BookCreatedEventPayload \<Rightarrow> collection \<Rightarrow> (error + unit) \<times> collection" where
  "onBookCreated e p coll =
     insertOne
       \<lparr> d_id = bc_bookId p, d_title = bc_title p, d_authorId = bc_authorId p,
         d_authorName = fetchAuthorName (bc_authorId p), d_pageCount = bc_pageCount p,
         d_isbn = bc_isbn p, d_yearRead = bc_yearRead p, d_status = bc_status p,
         d_rating = None, d_coverUrl = None, d_quotes = [], d_notes = [],
         d_quotesCount = 0, d_notesCount = 0, d_createdAt = now e, d_updatedAt = now e \<rparr>
       coll"

text \<open>The \<open>$set\<close> of \<open>onBookUpdated\<close>: \<open>updatedAt\<close>, and each key the change-set has.\<close>

definition setUpdateFields :: "BookUpdatedEventPayload \<Rightarrow> BookDocument \<Rightarrow> BookDocument" where
  "setUpdateFields p d =
     (let c = bu_changes p;
          d1 = d\<lparr> d_updatedAt := bu_updatedAt p \<rparr>;
          d2 = (case ch_title c of Undefined \<Rightarrow> d1 | Defined v \<Rightarrow> d1\<lparr> d_title := v \<rparr>);
          d3 = (case ch_pageCount c of Undefined \<Rightarrow> d2 | Defined v \<Rightarrow> d2\<lparr> d_pageCount := v \<rparr>);
          d4 = (case ch_yearRead c of Undefined \<Rightarrow> d3 | Defined v \<Rightarrow> d3\<lparr> d_yearRead := v \<rparr>);
          d5 = (case ch_rating c of Undefined \<Rightarrow> d4 | Defined v \<Rightarrow> d4\<lparr> d_rating := v \<rparr>);
          d6 = (case ch_status c of Undefined \<Rightarrow> d5 | Defined v \<Rightarrow> d5\<lparr> d_status := v \<rparr>)
      in d6)"

definition onBookUpdated ::
  "BookUpdatedEventPayload \<Rightarrow> collection \<Rightarrow> (error + unit) \<times> collection" where
  "onBookUpdated p coll = (Inr (), updateOne (bu_bookId p) (setUpdateFields p) coll)"

definition onBookDeleted ::
  "BookDeletedEventPayload \<Rightarrow> collection \<Rightarrow> (error + unit) \<times> collection" where
  "onBookDeleted p coll = (Inr (), deleteOne (bd_bookId p) coll)"

text \<open>The update of \<open>onQuoteAdded\<close>: \<open>$push\<close>, \<open>$inc\<close> and \<open>$set\<close> in one \<open>updateOne\<close>.\<close>

definition pushQuote :: "env \<Rightarrow> QuoteAddedEventPayload \<Rightarrow> BookDocument \<Rightarrow> BookDocument" where
  "pushQuote e p d =
     d\<lparr> d_quotes := d_quotes d @
           [\<lparr> qd_id = qa_quoteId p, qd_content = qa_content p, qd_page = qa_page p,
              qd_createdAt = now e \<rparr>],
        d_quotesCount := d_quotesCount d + 1,
        d_updatedAt := now e \<rparr>"

definition onQuoteAdded ::
  "env \<Rightarrow> QuoteAddedEventPayload \<Rightarrow> collection \<Rightarrow> (error + unit) \<times> collection" where
  "onQuoteAdded e p coll = (Inr (), updateOne (qa_bookId p) (pushQuote e p) coll)"

text \<open>\<open>createProjectionRouter\<close>: the switch on the event name.\<close>

fun projectionRouter :: "env \<Rightarrow> EventPayload \<Rightarrow> collection \<Rightarrow> (error + unit) \<times> collection" where
  "projectionRouter e (BookCreatedEvent p) coll = onBookCreated e p coll"
| "projectionRouter e (BookUpdatedEvent p) coll = onBookUpdated p coll"
| "projectionRouter e (BookDeletedEvent p) coll = onBookDeleted p coll"
| "projectionRouter e (QuoteAddedEvent p) coll = onQuoteAdded e p coll"
| "projectionRouter e (BookFinishedEvent p) coll =
     onBookUpdated
       \<lparr> bu_bookId = bf_bookId p,
         bu_changes = noChanges\<lparr> ch_status := Defined ''FINISHED'',
                                ch_yearRead := Defined (Some (bf_yearRead p)),
                                ch_rating := Defined (bf_rating p) \<rparr>,
         bu_updatedAt = now e \<rparr>
       coll"

section \<open>The write store (postgres.ts, PostgresBookRepository.ts)\<close>

record BookRow =
  br_id :: string
  br_title :: string
  br_author_id :: string
  br_page_count :: int
  br_isbn :: "string option"
  br_year_read :: "int option"
  br_status :: string
  br_rating :: "int option"
  br_cover_url :: "string option"
  br_version :: int
  br_created_at :: int
  br_updated_at :: int

record QuoteRow =
  qr_id :: string
  qr_book_id :: string
  qr_content :: string
  qr_page :: "int option"
  qr_created_at :: int

record NoteRow =
  nr_id :: string
  nr_book_id :: string
  nr_content :: string
  nr_chapter :: "string option"
  nr_created_at :: int

text \<open>
  The three tables, each a list of rows in physical order. Of the schema's constraints the
  primary keys are modelled: an \<open>INSERT\<close> of a taken \<open>id\<close> fails. A statement that
  fails changes nothing; the statements before it in the same transaction have taken
  effect until the \<open>ROLLBACK\<close>.
\<close>

record database =
  db_books :: "BookRow list"
  db_quotes :: "QuoteRow list"
  db_notes :: "NoteRow list"

text \<open>\<open>await\<close> in a sequence of calls on a state: a throw ends the sequence.\<close>

definition await ::
  "(error + 'a) \<times> 's \<Rightarrow> ('a \<Rightarrow> 's \<Rightarrow> (error + 'b) \<times> 's) \<Rightarrow> (error + 'b) \<times> 's" where
  "await m f = (case m of (Inl err, s) \<Rightarrow> (Inl err, s) | (Inr x, s) \<Rightarrow> f x s)"

text \<open>
  \<open>transaction\<close> (postgres.ts): \<open>BEGIN\<close>, the callback, \<open>COMMIT\<close>; when the callback
  throws, \<open>ROLLBACK\<close> restores the state at \<open>BEGIN\<close> and the error is thrown on.
\<close>

definition transaction ::
  "(database \<Rightarrow> (error + 'a) \<times> database) \<Rightarrow> database \<Rightarrow> (error + 'a) \<times> database" where
  "transaction callback db =
     (case callback db of
        (Inl err, db') \<Rightarrow> (Inl err, db)
      | (Inr r, db') \<Rightarrow> (Inr r, db'))"

definition existsInTransaction :: "string \<Rightarrow> database \<Rightarrow> (error + bool) \<times> database" where
  "existsInTransaction i db = (Inr (i \<in> set (map br_id (db_books db))), db)"

text \<open>The \<open>VALUES\<close> of \<open>insert\<close>: the aggregate's getters, and \<open>book.version + 1\<close>.\<close>

definition insertedBookRow :: "Book \<Rightarrow> BookRow" where
  "insertedBookRow book =
     \<lparr> br_id = bookId book, br_title = title book, br_author_id = authorId book,
       br_page_count = pageCount book, br_isbn = isbn book, br_year_read = yearRead book,
       br_status = statusString (status book), br_rating = rating book,
       br_cover_url = coverUrl book, br_version = version book + 1,
       br_created_at = createdAt book, br_updated_at = updatedAt book \<rparr>"

definition insert_book :: "Book \<Rightarrow> database \<Rightarrow> (error + unit) \<times> database" where
  "insert_book book db =
     (if bookId book \<in> set (map br_id (db_books db)) then
        (Inl (Error ''duplicate key value violates unique constraint books_pkey''), db)
      else (Inr (), db\<lparr> db_books := db_books db @ [insertedBookRow book] \<rparr>))"

text \<open>
  \<open>update\<close>: the conditional \<open>UPDATE books SET ... WHERE id = $1 AND version = $10\<close>.
  \<open>updateMatches\<close> is its \<open>WHERE\<close>, \<open>updatedBookRow\<close> its \<open>SET\<close>, \<open>rowCount\<close> the
  number of rows it matched.
\<close>

definition updateMatches :: "Book \<Rightarrow> BookRow \<Rightarrow> bool" where
  "updateMatches book r = (br_id r = bookId book \<and> br_version r = version book)"

definition updatedBookRow :: "Book \<Rightarrow> BookRow \<Rightarrow> BookRow" where
  "updatedBookRow book r =
     r\<lparr> br_title := title book, br_page_count := pageCount book, br_isbn := isbn book,
        br_year_read := yearRead book, br_status := statusString (status book),
        br_rating := rating book, br_cover_url := coverUrl book,
        br_version := br_version r + 1, br_updated_at := updatedAt book \<rparr>"

definition update_book :: "Book \<Rightarrow> database \<Rightarrow> (error + unit) \<times> database" where
  "update_book book db =
     (let rowCount = length (filter (updateMatches book) (db_books db));
          db' = db\<lparr> db_books :=
                  map (\<lambda>r. if updateMatches book r then updatedBookRow book r else r)
                    (db_books db) \<rparr>
      in if rowCount = 0 then
           (Inl (Error (''Optimistic concurrency conflict for Book '' @ bookId book)), db')
         else (Inr (), db'))"

text \<open>
  \<open>syncQuotes\<close>: the ids of the book's stored quotes are read once; stored quotes the
  aggregate no longer has are deleted; then every quote of the aggregate is updated when
  its id was among the stored ones and inserted otherwise.
\<close>

definition deleteQuoteRow :: "string \<Rightarrow> database \<Rightarrow> database" where
  "deleteQuoteRow i db = db\<lparr> db_quotes := filter (\<lambda>r. qr_id r \<noteq> i) (db_quotes db) \<rparr>"

definition updatedQuoteRow :: "Quote \<Rightarrow> QuoteRow \<Rightarrow> QuoteRow" where
  "updatedQuoteRow q r = r\<lparr> qr_content := q_content q, qr_page := q_page q \<rparr>"

definition updateQuoteRow :: "Quote \<Rightarrow> database \<Rightarrow> (error + unit) \<times> database" where
  "updateQuoteRow q db =
     (Inr (), db\<lparr> db_quotes :=
        map (\<lambda>r. if qr_id r = q_id q then updatedQuoteRow q r else r) (db_quotes db) \<rparr>)"

definition insertedQuoteRow :: "string \<Rightarrow> Quote \<Rightarrow> QuoteRow" where
  "insertedQuoteRow bid q =
     \<lparr> qr_id = q_id q, qr_book_id = bid, qr_content = q_content q, qr_page = q_page q,
       qr_created_at = q_createdAt q \<rparr>"

definition insertQuoteRow :: "string \<Rightarrow> Quote \<Rightarrow> database \<Rightarrow> (error + unit) \<times> database" where
  "insertQuoteRow bid q db =
     (if q_id q \<in> set (map qr_id (db_quotes db)) then
        (Inl (Error ''duplicate key value violates unique constraint quotes_pkey''), db)
      else (Inr (), db\<lparr> db_quotes := db_quotes db @ [insertedQuoteRow bid q] \<rparr>))"

fun upsertQuotes ::
  "string \<Rightarrow> string list \<Rightarrow> Quote list \<Rightarrow> database \<Rightarrow> (error + unit) \<times> database" where
  "upsertQuotes bid existingIds [] db = (Inr (), db)"
| "upsertQuotes bid existingIds (q # qs) db =
     (case (if q_id q \<in> set existingIds then updateQuoteRow q db else insertQuoteRow bid q db) of
        (Inl err, db') \<Rightarrow> (Inl err, db')
      | (Inr u, db') \<Rightarrow> upsertQuotes bid existingIds qs db')"

definition syncQuotes :: "Book \<Rightarrow> database \<Rightarrow> (error + unit) \<times> database" where
  "syncQuotes book db =
     (let existingIds = map qr_id (filter (\<lambda>r. qr_book_id r = bookId book) (db_quotes db));
          currentIds = map q_id (quotes book);
          db1 = fold (\<lambda>existingId d. if existingId \<notin> set currentIds
                                       then deleteQuoteRow existingId d else d)
                  existingIds db
      in upsertQuotes (bookId book) existingIds (quotes book) db1)"

definition deleteNoteRow :: "string \<Rightarrow> database \<Rightarrow> database" where
  "deleteNoteRow i db = db\<lparr> db_notes := filter (\<lambda>r. nr_id r \<noteq> i) (db_notes db) \<rparr>"

definition updatedNoteRow :: "Note \<Rightarrow> NoteRow \<Rightarrow> NoteRow" where
  "updatedNoteRow n r = r\<lparr> nr_content := n_content n, nr_chapter := n_chapter n \<rparr>"

definition updateNoteRow :: "Note \<Rightarrow> database \<Rightarrow> (error + unit) \<times> database" where
  "updateNoteRow n db =
     (Inr (), db\<lparr> db_notes :=
        map (\<lambda>r. if nr_id r = n_id n then updatedNoteRow n r else r) (db_notes db) \<rparr>)"

definition insertedNoteRow :: "string \<Rightarrow> Note \<Rightarrow> NoteRow" where
  "insertedNoteRow bid n =
     \<lparr> nr_id = n_id n, nr_book_id = bid, nr_content = n_content n, nr_chapter = n_chapter n,
       nr_created_at = n_createdAt n \<rparr>"

definition insertNoteRow :: "string \<Rightarrow> Note \<Rightarrow> database \<Rightarrow> (error + unit) \<times> database" where
  "insertNoteRow bid n db =
     (if n_id n \<in> set (map nr_id (db_notes db)) then
        (Inl (Error ''duplicate key value violates unique constraint notes_pkey''), db)
      else (Inr (), db\<lparr> db_notes := db_notes db @ [insertedNoteRow bid n] \<rparr>))"

fun upsertNotes ::
  "string \<Rightarrow> string list \<Rightarrow> Note list \<Rightarrow> database \<Rightarrow> (error + unit) \<times> database" where
  "upsertNotes bid existingIds [] db = (Inr (), db)"
| "upsertNotes bid existingIds (n # ns) db =
     (case (if n_id n \<in> set existingIds then updateNoteRow n db else insertNoteRow bid n db) of
        (Inl err, db') \<Rightarrow> (Inl err, db')
      | (Inr u, db') \<Rightarrow> upsertNotes bid existingIds ns db')"

definition syncNotes :: "Book \<Rightarrow> database \<Rightarrow> (error + unit) \<times> database" where
  "syncNotes book db =
     (let existingIds = map nr_id (filter (\<lambda>r. nr_book_id r = bookId book) (db_notes db));
          currentIds = map n_id (notes' book);
          db1 = fold (\<lambda>existingId d. if existingId \<notin> set currentIds
                                       then deleteNoteRow existingId d else d)
                  existingIds db
      in upsertNotes (bookId book) existingIds (notes' book) db1)"

definition save :: "Book \<Rightarrow> database \<Rightarrow> (error + unit) \<times> database" where
  "save book db =
     transaction
       (\<lambda>client.
          await (existsInTransaction (bookId book) client) (\<lambda>exists c1.
          await (if exists then update_book book c1 else insert_book book c1) (\<lambda>u c2.
          await (syncQuotes book c2) (\<lambda>u c3.
          syncNotes book c3))))
       db"

text \<open>
  Reading back. \<open>QuoteId.fromString\<close>, \<open>NoteId.fromString\<close> and \<open>BookId.fromString\<close>
  throw on an empty or blank id. \<open>ORDER BY created_at\<close> is a stable sort of the matching
  rows in physical order (the engine promises no order among equal keys).
\<close>

definition QuoteId_fromString :: "string \<Rightarrow> error + string" where
  "QuoteId_fromString v =
     (if v = [] \<or> length (trim v) = 0 then Inl (Error ''QuoteId cannot be empty'') else Inr v)"

definition NoteId_fromString :: "string \<Rightarrow> error + string" where
  "NoteId_fromString v =
     (if v = [] \<or> length (trim v) = 0 then Inl (Error ''NoteId cannot be empty'') else Inr v)"

definition Quote_reconstitute :: "QuoteRow \<Rightarrow> error + Quote" where
  "Quote_reconstitute row =
     (case QuoteId_fromString (qr_id row) of Inl err \<Rightarrow> Inl err | Inr i \<Rightarrow>
      case BookId_fromString (qr_book_id row) of Inl err \<Rightarrow> Inl err | Inr bid \<Rightarrow>
        Inr \<lparr> q_id = i, q_bookId = bid, q_content = qr_content row, q_page = qr_page row,
              q_createdAt = qr_created_at row \<rparr>)"

definition Note_reconstitute :: "NoteRow \<Rightarrow> error + Note" where
  "Note_reconstitute row =
     (case NoteId_fromString (nr_id row) of Inl err \<Rightarrow> Inl err | Inr i \<Rightarrow>
      case BookId_fromString (nr_book_id row) of Inl err \<Rightarrow> Inl err | Inr bid \<Rightarrow>
        Inr \<lparr> n_id = i, n_bookId = bid, n_content = nr_content row, n_chapter = nr_chapter row,
              n_createdAt = nr_created_at row, n_updatedAt = nr_created_at row \<rparr>)"

text \<open>\<open>rows.map(f)\<close> with an \<open>f\<close> that may throw: the first throw ends the map.\<close>

fun mapThrowing :: "('a \<Rightarrow> error + 'b) \<Rightarrow> 'a list \<Rightarrow> error + 'b list" where
  "mapThrowing f [] = Inr []"
| "mapThrowing f (x # xs) =
     (case f x of
        Inl err \<Rightarrow> Inl err
      | Inr y \<Rightarrow> (case mapThrowing f xs of Inl err \<Rightarrow> Inl err | Inr ys \<Rightarrow> Inr (y # ys)))"

definition toAggregate :: "BookRow \<Rightarrow> QuoteRow list \<Rightarrow> NoteRow list \<Rightarrow> error + Book" where
  "toAggregate bookRow quoteRows noteRows =
     (case mapThrowing Quote_reconstitute quoteRows of Inl err \<Rightarrow> Inl err | Inr qs \<Rightarrow>
      case mapThrowing Note_reconstitute noteRows of Inl err \<Rightarrow> Inl err | Inr ns \<Rightarrow>
        reconstitute
          \<lparr> r_id = br_id bookRow, r_title = br_title bookRow, r_authorId = br_author_id bookRow,
            r_pageCount = br_page_count bookRow, r_isbn = br_isbn bookRow,
            r_yearRead = br_year_read bookRow, r_status = br_status bookRow,
            r_rating = br_rating bookRow, r_coverUrl = br_cover_url bookRow,
            r_quotes = qs, r_notes = ns, r_version = br_version bookRow,
            r_createdAt = br_created_at bookRow, r_updatedAt = br_updated_at bookRow \<rparr>)"

definition findById :: "string \<Rightarrow> database \<Rightarrow> error + Book option" where
  "findById i db =
     (case filter (\<lambda>r. br_id r = i) (db_books db) of
        [] \<Rightarrow> Inr None
      | bookRow # rest \<Rightarrow>
          map_sum (\<lambda>x. x) Some
            (toAggregate bookRow
               (sort_key qr_created_at (filter (\<lambda>r. qr_book_id r = i) (db_quotes db)))
               (sort_key nr_created_at (filter (\<lambda>r. nr_book_id r = i) (db_notes db)))))"

definition findByIsbn :: "string \<Rightarrow> database \<Rightarrow> error + Book option" where
  "findByIsbn v db =
     (case filter (\<lambda>r. br_isbn r = Some v) (db_books db) of
        [] \<Rightarrow> Inr None
      | bookRow # rest \<Rightarrow>
          map_sum (\<lambda>x. x) Some
            (toAggregate bookRow
               (filter (\<lambda>r. qr_book_id r = br_id bookRow) (db_quotes db))
               (filter (\<lambda>r. nr_book_id r = br_id bookRow) (db_notes db))))"

section \<open>The command handlers (application/handlers)\<close>

text \<open>
  What a handler works on: the write store, the broker channel, and a log of the calls it
  makes on its collaborators, each with whether the awaited call completed
  (\<open>True\<close>) or threw (\<open>False\<close>). The log is how the order of the calls is observed.
\<close>

datatype Call =
    SaveCall string bool
  | PublishAllCall "DomainEvent list" bool
  | ClearDomainEventsCall string

record World =
  w_db :: database
  w_channel :: channel
  w_calls :: "Call list"

definition logCall :: "Call \<Rightarrow> World \<Rightarrow> World" where
  "logCall c w = w\<lparr> w_calls := w_calls w @ [c] \<rparr>"

text \<open>\<open>await this.bookRepository.save(book)\<close>\<close>

definition repositorySave :: "Book \<Rightarrow> World \<Rightarrow> (error + unit) \<times> World" where
  "repositorySave book w =
     (case save book (w_db w) of
        (Inl err, db') \<Rightarrow> (Inl err, logCall (SaveCall (bookId book) False) (w\<lparr> w_db := db' \<rparr>))
      | (Inr u, db') \<Rightarrow> (Inr u, logCall (SaveCall (bookId book) True) (w\<lparr> w_db := db' \<rparr>)))"

text \<open>\<open>await this.eventPublisher.publishAll([...book.domainEvents])\<close>\<close>

definition publisherPublishAll :: "env \<Rightarrow> DomainEvent list \<Rightarrow> World \<Rightarrow> (error + unit) \<times> World" where
  "publisherPublishAll e evs w =
     (case publishAll e evs (w_channel w) of
        (Inl err, ch') \<Rightarrow> (Inl err, logCall (PublishAllCall evs False) (w\<lparr> w_channel := ch' \<rparr>))
      | (Inr u, ch') \<Rightarrow> (Inr u, logCall (PublishAllCall evs True) (w\<lparr> w_channel := ch' \<rparr>)))"

text \<open>\<open>book.clearDomainEvents()\<close>\<close>

definition bookClearDomainEvents :: "Book \<Rightarrow> World \<Rightarrow> (error + Book) \<times> World" where
  "bookClearDomainEvents book w =
     (Inr (clearDomainEvents book), logCall (ClearDomainEventsCall (bookId book)) w)"

text \<open>
  \<open>CreateBookHandler.execute\<close>. The command's payload has the fields of
  \<open>CreateBookProps\<close> and is passed on field by field.
\<close>

definition CreateBookHandler_execute ::
  "env \<Rightarrow> CreateBookProps \<Rightarrow> World \<Rightarrow> (error + string) \<times> World" where
  "CreateBookHandler_execute e cmd w =
     (case (case p_isbn cmd of
              Undefined \<Rightarrow> Inr ()
            | Defined v \<Rightarrow>
                if v = [] then Inr ()
                else (case findByIsbn v (w_db w) of
                        Inl err \<Rightarrow> Inl err
                      | Inr None \<Rightarrow> Inr ()
                      | Inr (Some existingBook) \<Rightarrow>
                          Inl (Error (''Book with ISBN '' @ v @ '' already exists''))))
      of Inl err \<Rightarrow> (Inl err, w) | Inr u \<Rightarrow>
      case create e cmd of Inl err \<Rightarrow> (Inl err, w) | Inr book \<Rightarrow>
        await (repositorySave book w) (\<lambda>u w1.
        await (publisherPublishAll e (domainEvents book) w1) (\<lambda>u w2.
        await (bookClearDomainEvents book w2) (\<lambda>book' w3.
        (Inr (bookId book'), w3)))))"

record UpdateBookCommandPayload =
  ub_bookId :: string
  ub_changes :: DetailChanges

definition UpdateBookHandler_execute ::
  "env \<Rightarrow> UpdateBookCommandPayload \<Rightarrow> World \<Rightarrow> (error + unit) \<times> World" where
  "UpdateBookHandler_execute e cmd w =
     (case BookId_fromString (ub_bookId cmd) of Inl err \<Rightarrow> (Inl err, w) | Inr i \<Rightarrow>
      case findById i (w_db w) of
        Inl err \<Rightarrow> (Inl err, w)
      | Inr None \<Rightarrow> (Inl (EntityNotFoundException ''Book'' (ub_bookId cmd)), w)
      | Inr (Some book0) \<Rightarrow>
      case updateDetails e (ub_changes cmd) book0 of
        (Inl err, book) \<Rightarrow> (Inl err, w)
      | (Inr u, book) \<Rightarrow>
        await (repositorySave book w) (\<lambda>u w1.
        if hasUncommittedEvents book then
          await (publisherPublishAll e (domainEvents book) w1) (\<lambda>u w2.
          await (bookClearDomainEvents book w2) (\<lambda>book' w3.
          (Inr (), w3)))
        else (Inr (), w1)))"

record MarkBookAsFinishedCommandPayload =
  mf_bookId :: string
  mf_yearRead :: int
  mf_rating :: "int optional"

definition MarkBookAsFinishedHandler_execute ::
  "env \<Rightarrow> MarkBookAsFinishedCommandPayload \<Rightarrow> World \<Rightarrow> (error + unit) \<times> World" where
  "MarkBookAsFinishedHandler_execute e cmd w =
     (case BookId_fromString (mf_bookId cmd) of Inl err \<Rightarrow> (Inl err, w) | Inr i \<Rightarrow>
      case findById i (w_db w) of
        Inl err \<Rightarrow> (Inl err, w)
      | Inr None \<Rightarrow> (Inl (EntityNotFoundException ''Book'' (mf_bookId cmd)), w)
      | Inr (Some book0) \<Rightarrow>
      case markAsFinished e (mf_yearRead cmd) (mf_rating cmd) book0 of
        (Inl err, book) \<Rightarrow> (Inl err, w)
      | (Inr u, book) \<Rightarrow>
        await (repositorySave book w) (\<lambda>u w1.
        await (publisherPublishAll e (domainEvents book) w1) (\<lambda>u w2.
        await (bookClearDomainEvents book w2) (\<lambda>book' w3.
        (Inr (), w3)))))"

record AddQuoteCommandPayload =
  aq_bookId :: string
  aq_content :: string
  aq_page :: "int optional"

definition AddQuoteHandler_execute ::
  "env \<Rightarrow> AddQuoteCommandPayload \<Rightarrow> World \<Rightarrow> (error + string) \<times> World" where
  "AddQuoteHandler_execute e cmd w =
     (case BookId_fromString (aq_bookId cmd) of Inl err \<Rightarrow> (Inl err, w) | Inr i \<Rightarrow>
      case findById i (w_db w) of
        Inl err \<Rightarrow> (Inl err, w)
      | Inr None \<Rightarrow> (Inl (EntityNotFoundException ''Book'' (aq_bookId cmd)), w)
      | Inr (Some book0) \<Rightarrow>
      case addQuote e (aq_content cmd) (aq_page cmd) book0 of
        (Inl err, book) \<Rightarrow> (Inl err, w)
      | (Inr quote, book) \<Rightarrow>
        await (repositorySave book w) (\<lambda>u w1.
        await (publisherPublishAll e (domainEvents book) w1) (\<lambda>u w2.
        await (bookClearDomainEvents book w2) (\<lambda>book' w3.
        (Inr (q_id quote), w3)))))"

subsection \<open>The order of a handler's calls\<close>

text \<open>
  Properties of a call log. \<open>publishOnlyAfterSave\<close>: before every \<open>publishAll\<close>
  stands a \<open>save\<close> that completed. \<open>clearOnlyAfterPublishAll\<close>: before every
  \<open>clearDomainEvents\<close> stands a \<open>publishAll\<close> that completed. \<open>saveThrew\<close>: some
  \<open>save\<close> threw.
\<close>

definition isPublishAll :: "Call \<Rightarrow> bool" where
  "isPublishAll c = (case c of PublishAllCall evs ok \<Rightarrow> True | _ \<Rightarrow> False)"

definition isClear :: "Call \<Rightarrow> bool" where
  "isClear c = (case c of ClearDomainEventsCall i \<Rightarrow> True | _ \<Rightarrow> False)"

definition saveThrew :: "Call list \<Rightarrow> bool" where
  "saveThrew cs = list_ex (\<lambda>c. case c of SaveCall i ok \<Rightarrow> \<not> ok | _ \<Rightarrow> False) cs"

definition publishOnlyAfterSave :: "Call list \<Rightarrow> bool" where
  "publishOnlyAfterSave cs =
     (\<forall>n < length cs. isPublishAll (cs ! n) \<longrightarrow> (\<exists>m < n. \<exists>i. cs ! m = SaveCall i True))"

definition clearOnlyAfterPublishAll :: "Call list \<Rightarrow> bool" where
  "clearOnlyAfterPublishAll cs =
     (\<forall>n < length cs. isClear (cs ! n) \<longrightarrow> (\<exists>m < n. \<exists>evs. cs ! m = PublishAllCall evs True))"

text \<open>
  A run from the world \<open>w\<close> with the outcome and final world \<open>out\<close> keeps the order:
  its log has the two properties, and when \<open>save\<close> threw, nothing was published, the
  outbox was not cleared, the handler threw, and the channel and the store are as before.
\<close>

definition persistThenPublishThenClear :: "World \<Rightarrow> (error + 'a) \<times> World \<Rightarrow> bool" where
  "persistThenPublishThenClear w out =
     (publishOnlyAfterSave (w_calls (snd out)) \<and>
      clearOnlyAfterPublishAll (w_calls (snd out)) \<and>
      (saveThrew (w_calls (snd out)) \<longrightarrow>
         \<not> list_ex isPublishAll (w_calls (snd out)) \<and>
         \<not> list_ex isClear (w_calls (snd out)) \<and>
         isl (fst out) \<and> w_channel (snd out) = w_channel w \<and> w_db (snd out) = w_db w))"

text \<open>The logs a handler can leave, used in the proofs.\<close>

fun protocol :: "Call list \<Rightarrow> bool" where
  "protocol [] = True"
| "protocol [SaveCall i ok] = True"
| "protocol [SaveCall i True, PublishAllCall evs ok] = True"
| "protocol [SaveCall i True, PublishAllCall evs True, ClearDomainEventsCall j] = True"
| "protocol cs = False"

text \<open>The proofs about the handlers go through this form of the property.\<close>

definition orderedRun :: "World \<Rightarrow> (error + 'a) \<times> World \<Rightarrow> bool" where
  "orderedRun w out =
     (protocol (w_calls (snd out)) \<and>
      (if saveThrew (w_calls (snd out))
       then isl (fst out) \<and> w_channel (snd out) = w_channel w \<and> w_db (snd out) = w_db w
       else True))"

subsection \<open>Reading back what was saved\<close>

text \<open>
  The conditions under which a saved aggregate is read back. \<open>wellFormed\<close>: what the
  aggregate's own operations maintain (ids are not blank, the ISBN is not empty and the
  rating not 0, every child belongs to the book, child ids are distinct, children stand in
  the order of strictly increasing creation times). \<open>primaryKeys\<close>: the ids of each
  table are unique. \<open>writeOnceAgree\<close>: the columns that \<open>save\<close> never updates
  (\<open>author_id\<close> and \<open>created_at\<close> of the book's row, \<open>created_at\<close> of the rows of
  its quotes and notes) hold what the aggregate holds, as they do for an aggregate
  that is new or was loaded from this store.
\<close>

definition wellFormed :: "Book \<Rightarrow> bool" where
  "wellFormed b =
     (trim (bookId b) \<noteq> [] \<and> isbn b \<noteq> Some [] \<and> rating b \<noteq> Some 0 \<and>
      (\<forall>q \<in> set (quotes b). q_bookId q = bookId b \<and> trim (q_id q) \<noteq> []) \<and>
      (\<forall>n \<in> set (notes' b). n_bookId n = bookId b \<and> trim (n_id n) \<noteq> []) \<and>
      distinct (map q_id (quotes b)) \<and> distinct (map n_id (notes' b)) \<and>
      sorted_wrt (<) (map q_createdAt (quotes b)) \<and>
      sorted_wrt (<) (map n_createdAt (notes' b)))"

definition primaryKeys :: "database \<Rightarrow> bool" where
  "primaryKeys db =
     (distinct (map br_id (db_books db)) \<and> distinct (map qr_id (db_quotes db)) \<and>
      distinct (map nr_id (db_notes db)))"

definition writeOnceAgree :: "database \<Rightarrow> Book \<Rightarrow> bool" where
  "writeOnceAgree db b =
     ((\<forall>r \<in> set (db_books db). br_id r = bookId b \<longrightarrow>
          br_author_id r = authorId b \<and> br_created_at r = createdAt b) \<and>
      (\<forall>r \<in> set (db_quotes db). qr_book_id r = bookId b \<longrightarrow>
          (\<forall>q \<in> set (quotes b). q_id q = qr_id r \<longrightarrow> q_createdAt q = qr_created_at r)) \<and>
      (\<forall>r \<in> set (db_notes db). nr_book_id r = bookId b \<longrightarrow>
          (\<forall>n \<in> set (notes' b). n_id n = nr_id r \<longrightarrow> n_createdAt n = nr_created_at r)))"

text \<open>
  What \<open>findById\<close> returns after the save: the aggregate with the next version, an
  empty outbox, and each note's \<open>updatedAt\<close> replaced by its \<open>createdAt\<close> (the
  \<open>notes\<close> table has no \<open>updated_at\<close> column).
\<close>

definition reloaded :: "Book \<Rightarrow> Book" where
  "reloaded b =
     b\<lparr> version := version b + 1, domainEvents := [],
        notes' := map (\<lambda>n. n\<lparr> n_updatedAt := n_createdAt n \<rparr>) (notes' b) \<rparr>"

text \<open>The effect on one stored row of the \<open>UPDATE\<close> statements of the upsert loop, in order.\<close>

fun applyQuoteUpdates :: "string list \<Rightarrow> Quote list \<Rightarrow> QuoteRow \<Rightarrow> QuoteRow" where
  "applyQuoteUpdates ex [] r = r"
| "applyQuoteUpdates ex (q # qs) r =
     applyQuoteUpdates ex qs
       (if q_id q \<in> set ex \<and> qr_id r = q_id q then updatedQuoteRow q r else r)"

fun applyNoteUpdates :: "string list \<Rightarrow> Note list \<Rightarrow> NoteRow \<Rightarrow> NoteRow" where
  "applyNoteUpdates ex [] r = r"
| "applyNoteUpdates ex (q # qs) r =
     applyNoteUpdates ex qs
       (if n_id q \<in> set ex \<and> nr_id r = n_id q then updatedNoteRow q r else r)"

section \<open>Sample values\<close>

text \<open>Concrete inputs on which the theorems below are instantiated.\<close>

definition env0 :: env where
  "env0 = \<lparr> now = 1700000000000, currentYear = 2024, newId = ''id-1'', newEventId = ''ev-1'' \<rparr>"

definition env1 :: env where
  "env1 = \<lparr> now = 1700000005000, currentYear = 2024, newId = ''id-2'', newEventId = ''ev-2'' \<rparr>"

definition props0 :: CreateBookProps where
  "props0 =
     \<lparr> p_title = ''  Domain-Driven   Design '', p_authorId = ''author-123'', p_pageCount = 560,
       p_isbn = Defined ''978-0321125217'', p_yearRead = Undefined, p_status = Defined READING,
       p_rating = Undefined, p_coverUrl = Undefined \<rparr>"

definition createdEvent0 :: DomainEvent where
  "createdEvent0 =
     \<lparr> eventId = ''ev-1'', occurredAt = 1700000000000,
       payload = BookCreatedEvent
         \<lparr> bc_bookId = ''id-1'', bc_title = ''Domain-Driven Design'',
           bc_authorId = ''author-123'', bc_pageCount = 560,
           bc_isbn = Some ''9780321125217'', bc_yearRead = None, bc_status = ''READING'' \<rparr> \<rparr>"

definition book0 :: Book where
  "book0 =
     \<lparr> bookId = ''id-1'', title = ''Domain-Driven Design'', authorId = ''author-123'',
       pageCount = 560, isbn = Some ''9780321125217'', yearRead = None, status = READING,
       rating = None, coverUrl = None, quotes = [], notes' = [],
       createdAt = 1700000000000, updatedAt = 1700000000000, version = 0,
       domainEvents = [createdEvent0] \<rparr>"

text \<open>The same book as \<open>findById\<close> would return it later: persisted, abandoned, outbox empty.\<close>

definition abandonedBook :: Book where
  "abandonedBook = book0\<lparr> status := ABANDONED, version := 3, domainEvents := [] \<rparr>"

definition loadedBook :: Book where
  "loadedBook = book0\<lparr> version := 1, domainEvents := [] \<rparr>"

definition ratingNull :: DetailChanges where
  "ratingNull =
     \<lparr> dc_title = Undefined, dc_pageCount = Undefined, dc_yearRead = Undefined,
       dc_rating = Defined None, dc_coverUrl = Undefined \<rparr>"

definition quoteAdded0 :: QuoteAddedEventPayload where
  "quoteAdded0 =
     \<lparr> qa_bookId = ''id-1'', qa_quoteId = ''q-1'', qa_content = ''A model is a distillation.'',
       qa_page = Some 42 \<rparr>"

definition quoteDoc0 :: QuoteDocument where
  "quoteDoc0 =
     \<lparr> qd_id = ''q-1'', qd_content = ''A model is a distillation.'', qd_page = Some 42,
       qd_createdAt = 1700000005000 \<rparr>"

definition doc0 :: BookDocument where
  "doc0 =
     \<lparr> d_id = ''id-1'', d_title = ''Domain-Driven Design'', d_authorId = ''author-123'',
       d_authorName = ''Author author-1'', d_pageCount = 560, d_isbn = Some ''9780321125217'',
       d_yearRead = None, d_status = ''READING'', d_rating = None, d_coverUrl = None,
       d_quotes = [], d_notes = [], d_quotesCount = 0, d_notesCount = 0,
       d_createdAt = 1700000000000, d_updatedAt = 1700000000000 \<rparr>"

definition created0 :: BookCreatedEventPayload where
  "created0 =
     \<lparr> bc_bookId = ''id-1'', bc_title = ''Domain-Driven Design'', bc_authorId = ''author-123'',
       bc_pageCount = 560, bc_isbn = Some ''9780321125217'', bc_yearRead = None,
       bc_status = ''READING'' \<rparr>"

definition updated0 :: BookUpdatedEventPayload where
  "updated0 =
     \<lparr> bu_bookId = ''id-1'',
       bu_changes = noChanges\<lparr> ch_title := Defined ''DDD'', ch_rating := Defined (Some 4) \<rparr>,
       bu_updatedAt = 1700000005000 \<rparr>"

definition deleted0 :: BookDeletedEventPayload where
  "deleted0 =
     \<lparr> bd_bookId = ''id-1'', bd_authorId = ''author-123'', bd_pageCount = 560,
       bd_yearRead = None \<rparr>"

definition emptyDb :: database where
  "emptyDb = \<lparr> db_books = [], db_quotes = [], db_notes = [] \<rparr>"

text \<open>The store after \<open>book0\<close> was saved once.\<close>

definition row1 :: BookRow where
  "row1 =
     \<lparr> br_id = ''id-1'', br_title = ''Domain-Driven Design'', br_author_id = ''author-123'',
       br_page_count = 560, br_isbn = Some ''9780321125217'', br_year_read = None,
       br_status = ''READING'', br_rating = None, br_cover_url = None, br_version = 1,
       br_created_at = 1700000000000, br_updated_at = 1700000000000 \<rparr>"

definition db1 :: database where
  "db1 = \<lparr> db_books = [row1], db_quotes = [], db_notes = [] \<rparr>"

text \<open>
  The store after another writer has saved the book again and added a quote and a note,
  and an aggregate loaded before that, at version 1, with a new title.
\<close>

definition quoteRow0 :: QuoteRow where
  "quoteRow0 =
     \<lparr> qr_id = ''q-1'', qr_book_id = ''id-1'', qr_content = ''A model is a distillation.'',
       qr_page = Some 42, qr_created_at = 1700000003000 \<rparr>"

definition noteRow0 :: NoteRow where
  "noteRow0 =
     \<lparr> nr_id = ''n-1'', nr_book_id = ''id-1'', nr_content = ''Read chapter 2 again'',
       nr_chapter = None, nr_created_at = 1700000004000 \<rparr>"

definition db2 :: database where
  "db2 = \<lparr> db_books = [row1\<lparr> br_version := 2, br_updated_at := 1700000004000 \<rparr>],
           db_quotes = [quoteRow0], db_notes = [noteRow0] \<rparr>"

definition staleBook :: Book where
  "staleBook = loadedBook\<lparr> title := ''DDD'', updatedAt := 1700000005000 \<rparr>"

definition world0 :: World where
  "world0 = \<lparr> w_db = emptyDb, w_channel = Some [], w_calls = [] \<rparr>"

text \<open>A store in which the id the generator hands out next is the id of another book's quote.\<close>

definition worldClash :: World where
  "worldClash =
     \<lparr> w_db = db1\<lparr> db_quotes := [quoteRow0\<lparr> qr_id := ''id-2'', qr_book_id := ''id-9'' \<rparr>] \<rparr>,
       w_channel = Some [], w_calls = [] \<rparr>"

definition addQuote0 :: AddQuoteCommandPayload where
  "addQuote0 = \<lparr> aq_bookId = ''id-1'', aq_content = ''A model is a distillation.'',
                 aq_page = Defined 42 \<rparr>"

text \<open>
  An aggregate loaded from \<open>db1\<close> to which a note was added and then edited through
  \<open>Note.updateContent\<close>, four seconds later.
\<close>

definition env2 :: env where
  "env2 = \<lparr> now = 1700000009000, currentYear = 2024, newId = ''id-3'', newEventId = ''ev-3'' \<rparr>"

definition noteBook :: Book where
  "noteBook =
     (case addNote env1 ''Read chapter 2 again'' Undefined loadedBook of
        (r, b) \<Rightarrow> b\<lparr> notes' := map (\<lambda>n. snd (Note_updateContent env2 ''Read chapter 3'' n))
                                  (notes' b) \<rparr>)"

definition db3 :: database where
  "db3 =
     \<lparr> db_books = [row1\<lparr> br_version := 2, br_updated_at := 1700000005000 \<rparr>], db_quotes = [],
       db_notes = [\<lparr> nr_id = ''id-2'', nr_book_id = ''id-1'', nr_content = ''Read chapter 3'',
                     nr_chapter = None, nr_created_at = 1700000005000 \<rparr>] \<rparr>"

text \<open>
  An aggregate loaded from \<open>db2\<close> (version 2, one quote, one note) that was given a new
  title and a second quote and lost its note.
\<close>

definition quote0 :: Quote where
  "quote0 =
     \<lparr> q_id = ''q-1'', q_bookId = ''id-1'', q_content = ''A model is a distillation.'',
       q_page = Some 42, q_createdAt = 1700000003000 \<rparr>"

definition quote1 :: Quote where
  "quote1 =
     \<lparr> q_id = ''q-2'', q_bookId = ''id-1'', q_content = ''Refactor toward deeper insight.'',
       q_page = None, q_createdAt = 1700000005000 \<rparr>"

definition editedBook :: Book where
  "editedBook =
     loadedBook\<lparr> title := ''DDD'', quotes := [quote0, quote1], updatedAt := 1700000005000,
                 version := 2 \<rparr>"

definition db4 :: database where
  "db4 =
     \<lparr> db_books = [row1\<lparr> br_title := ''DDD'', br_version := 3, br_updated_at := 1700000005000 \<rparr>],
       db_quotes = [quoteRow0,
                    \<lparr> qr_id = ''q-2'', qr_book_id = ''id-1'',
                      qr_content = ''Refactor toward deeper insight.'', qr_page = None,
                      qr_created_at = 1700000005000 \<rparr>],
       db_notes = [] \<rparr>"

section \<open>Verified properties\<close>

subsection \<open>Helper lemmas\<close>

lemma publishAll_connected:
  "publishAll e evs (Some ms) = (Inr (), Some (ms @ map (toMessage e) evs))"
  by (induction evs arbitrary: ms) (simp_all add: publish_def getChannel_def)

lemma updateOne_idem:
  "(\<And>d. f (f d) = f d) \<Longrightarrow> (\<And>d. d_id (f d) = d_id d) \<Longrightarrow>
   updateOne i f (updateOne i f c) = updateOne i f c"
  by (induction c) auto

lemma updateOne_compose:
  "(\<And>d. d_id (f d) = d_id d) \<Longrightarrow>
   updateOne i g (updateOne i f c) = updateOne i (\<lambda>d. g (f d)) c"
  by (induction c) auto

lemma updateOne_map_unchanged:
  "(\<And>d. h (f d) = h d) \<Longrightarrow> map h (updateOne i f c) = map h c"
  by (induction c) auto

lemma setUpdateFields_idem: "setUpdateFields p (setUpdateFields p d) = setUpdateFields p d"
  by (simp add: setUpdateFields_def Let_def split: optional.splits)

lemma setUpdateFields_id: "d_id (setUpdateFields p d) = d_id d"
  by (simp add: setUpdateFields_def Let_def split: optional.splits)

lemma deleteOne_absent: "i \<notin> set (map d_id c) \<Longrightarrow> deleteOne i c = c"
  by (induction c) auto

lemma deleteOne_distinct_absent:
  "distinct (map d_id c) \<Longrightarrow> i \<notin> set (map d_id (deleteOne i c))"
  by (induction c) auto

lemma deleteOne_idem:
  "distinct (map d_id c) \<Longrightarrow> deleteOne i (deleteOne i c) = deleteOne i c"
  by (rule deleteOne_absent) (rule deleteOne_distinct_absent)

lemma count_id_distinct:
  "distinct (map d_id c) \<Longrightarrow>
   length (filter (\<lambda>d. d_id d = i) c) = (if i \<in> set (map d_id c) then 1 else 0)"
  by (induction c) (auto simp: filter_empty_conv)

lemma await_Inl [simp]: "await (Inl err, s) f = (Inl err, s)"
  by (simp add: await_def)

lemma await_Inr [simp]: "await (Inr x, s) f = f x s"
  by (simp add: await_def)

lemma books_fold_deleteQuote:
  "db_books (fold (\<lambda>i d. if P i then deleteQuoteRow i d else d) ids db) = db_books db"
  by (induction ids arbitrary: db) (simp_all add: deleteQuoteRow_def)

lemma books_upsertQuotes: "db_books (snd (upsertQuotes bid ex qs db)) = db_books db"
  by (induction qs arbitrary: db)
     (auto simp: updateQuoteRow_def insertQuoteRow_def split: prod.splits sum.splits)

lemma books_syncQuotes: "db_books (snd (syncQuotes b db)) = db_books db"
  by (simp add: syncQuotes_def Let_def books_upsertQuotes books_fold_deleteQuote)

lemma books_fold_deleteNote:
  "db_books (fold (\<lambda>i d. if P i then deleteNoteRow i d else d) ids db) = db_books db"
  by (induction ids arbitrary: db) (simp_all add: deleteNoteRow_def)

lemma books_upsertNotes: "db_books (snd (upsertNotes bid ex ns db)) = db_books db"
  by (induction ns arbitrary: db)
     (auto simp: updateNoteRow_def insertNoteRow_def split: prod.splits sum.splits)

lemma books_syncNotes: "db_books (snd (syncNotes b db)) = db_books db"
  by (simp add: syncNotes_def Let_def books_upsertNotes books_fold_deleteNote)

lemma updatedBookRow_id: "br_id (updatedBookRow b r) = br_id r"
  by (simp add: updatedBookRow_def)

lemma updatedBookRow_version: "br_version (updatedBookRow b r) = br_version r + 1"
  by (simp add: updatedBookRow_def)

text \<open>A save that succeeds is the row statement, \<open>syncQuotes\<close> and \<open>syncNotes\<close>, each succeeding.\<close>

lemma save_Inr_steps:
  assumes "save b db = (Inr (), db')"
  obtains c2 c3 where
    "(if bookId b \<in> set (map br_id (db_books db)) then update_book b db else insert_book b db)
       = (Inr (), c2)"
    "syncQuotes b c2 = (Inr (), c3)" "syncNotes b c3 = (Inr (), db')"
  using assms
  by (auto simp: save_def transaction_def existsInTransaction_def await_def
      split: prod.splits sum.splits if_splits)

lemma save_books_eq:
  assumes "save b db = (Inr (), db')"
  shows "db_books db' =
           (if bookId b \<in> set (map br_id (db_books db)) then db_books (snd (update_book b db))
            else db_books (snd (insert_book b db)))"
proof -
  from assms obtain c2 c3 where
    s1: "(if bookId b \<in> set (map br_id (db_books db)) then update_book b db else insert_book b db)
       = (Inr (), c2)"
    and s2: "syncQuotes b c2 = (Inr (), c3)" and s3: "syncNotes b c3 = (Inr (), db')"
    by (rule save_Inr_steps)
  from s3 have "db_books db' = db_books c3"
    by (metis books_syncNotes snd_conv)
  also from s2 have "\<dots> = db_books c2"
    by (metis books_syncQuotes snd_conv)
  finally show ?thesis
    using s1 by (auto split: if_splits)
qed

lemma update_book_books:
  "db_books (snd (update_book b db)) =
     map (\<lambda>r. if updateMatches b r then updatedBookRow b r else r) (db_books db)"
  by (simp add: update_book_def Let_def)

lemma update_keeps_ids:
  "map br_id (map (\<lambda>r. if P r then updatedBookRow b r else r) rows) = map br_id rows"
  by (induction rows) (simp_all add: updatedBookRow_id)

lemma update_leaves_no_match:
  "filter (updateMatches b)
     (map (\<lambda>r. if updateMatches b r then updatedBookRow b r else r) rows) = []"
  by (induction rows) (simp_all add: updateMatches_def updatedBookRow_id updatedBookRow_version)

text \<open>After a save that succeeded the book's row exists, and no row has the aggregate's version.\<close>

lemma save_then_stale:
  assumes "save b db = (Inr (), db')"
  shows "bookId b \<in> set (map br_id (db_books db')) \<and>
         filter (updateMatches b) (db_books db') = []"
proof (cases "bookId b \<in> set (map br_id (db_books db))")
  case True
  with save_books_eq [OF assms] have "db_books db' = db_books (snd (update_book b db))"
    by simp
  with True show ?thesis
    by (simp only: update_book_books update_keeps_ids update_leaves_no_match simp_thms)
next
  case False
  with save_books_eq [OF assms] have eq: "db_books db' = db_books db @ [insertedBookRow b]"
    by (simp add: insert_book_def)
  from False have "filter (updateMatches b) (db_books db) = []"
    by (force simp: filter_empty_conv updateMatches_def image_iff)
  with eq show ?thesis
    by (simp add: insertedBookRow_def updateMatches_def)
qed

text \<open>
  A save of an aggregate whose row exists at another version throws the conflict error,
  and the \<open>ROLLBACK\<close> leaves the three tables as they were.
\<close>

lemma save_version_mismatch:
  assumes "bookId b \<in> set (map br_id (db_books db))"
    and "filter (updateMatches b) (db_books db) = []"
  shows "save b db = (Inl (Error (''Optimistic concurrency conflict for Book '' @ bookId b)), db)"
  using assms
  by (simp add: save_def transaction_def existsInTransaction_def update_book_def Let_def)

lemma save_rollback: "save b db = (Inl err, db') \<Longrightarrow> db' = db"
  by (simp add: save_def transaction_def split: prod.splits sum.splits)

lemma protocol_shapes:
  assumes "protocol cs"
  obtains "cs = []"
  | i ok where "cs = [SaveCall i ok]"
  | i evs ok where "cs = [SaveCall i True, PublishAllCall evs ok]"
  | i evs j where "cs = [SaveCall i True, PublishAllCall evs True, ClearDomainEventsCall j]"
  using assms by (cases cs rule: protocol.cases) auto

lemma protocol_order:
  assumes "protocol cs"
  shows "publishOnlyAfterSave cs \<and> clearOnlyAfterPublishAll cs \<and>
         (saveThrew cs \<longrightarrow> \<not> list_ex isPublishAll cs \<and> \<not> list_ex isClear cs)"
  using assms
proof (cases rule: protocol_shapes)
  case 1
  then show ?thesis
    by (simp add: publishOnlyAfterSave_def clearOnlyAfterPublishAll_def saveThrew_def)
next
  case (2 i ok)
  then show ?thesis
    by (simp add: publishOnlyAfterSave_def clearOnlyAfterPublishAll_def saveThrew_def
        isPublishAll_def isClear_def)
next
  case (3 i evs ok)
  then show ?thesis
    by (auto simp: publishOnlyAfterSave_def clearOnlyAfterPublishAll_def saveThrew_def
        isPublishAll_def isClear_def less_Suc_eq nth_Cons')
next
  case (4 i evs j)
  then show ?thesis
    by (auto simp: publishOnlyAfterSave_def clearOnlyAfterPublishAll_def saveThrew_def
        isPublishAll_def isClear_def less_Suc_eq nth_Cons')
qed

lemma orderedRun_order: "orderedRun w out \<Longrightarrow> persistThenPublishThenClear w out"
  using protocol_order [of "w_calls (snd out)"]
  by (simp add: orderedRun_def persistThenPublishThenClear_def split: if_splits)

lemma orderedRun_early: "w_calls w = [] \<Longrightarrow> orderedRun w (Inl err, w)"
  by (simp add: orderedRun_def saveThrew_def)

lemma orderedRun_tail:
  assumes "w_calls w = []"
  shows "orderedRun w
           (await (repositorySave book w) (\<lambda>u w1.
            await (publisherPublishAll e evs w1) (\<lambda>u w2.
            await (bookClearDomainEvents book w2) (\<lambda>book' w3.
            (Inr (k book'), w3)))))"
proof (cases "save book (w_db w)")
  case (Pair r db')
  show ?thesis
  proof (cases r)
    case (Inl err)
    with Pair save_rollback [of book "w_db w" err db'] assms show ?thesis
      by (simp add: repositorySave_def orderedRun_def saveThrew_def logCall_def)
  next
    case (Inr u)
    with Pair assms show ?thesis
      by (cases "publishAll e evs (w_channel w)")
         (auto simp: repositorySave_def publisherPublishAll_def bookClearDomainEvents_def
            orderedRun_def saveThrew_def logCall_def split: sum.splits)
  qed
qed

lemma orderedRun_tail_update:
  assumes "w_calls w = []"
  shows "orderedRun w
           (await (repositorySave book w) (\<lambda>u w1.
            if hasUncommittedEvents book then
              await (publisherPublishAll e evs w1) (\<lambda>u w2.
              await (bookClearDomainEvents book w2) (\<lambda>book' w3.
              (Inr (), w3)))
            else (Inr (), w1)))"
proof (cases "hasUncommittedEvents book")
  case True
  then show ?thesis
    using orderedRun_tail [OF assms, of book e evs "\<lambda>b. ()"] by simp
next
  case False
  show ?thesis
  proof (cases "save book (w_db w)")
    case (Pair r db')
    with False assms save_rollback [of book "w_db w" _ db'] show ?thesis
      by (cases r) (auto simp: repositorySave_def orderedRun_def saveThrew_def logCall_def)
  qed
qed

lemma create_ordered:
  "w_calls w = [] \<Longrightarrow> orderedRun w (CreateBookHandler_execute e cmd w)"
  unfolding CreateBookHandler_execute_def
  by (simp add: orderedRun_early orderedRun_tail split: sum.splits)

lemma update_ordered:
  "w_calls w = [] \<Longrightarrow> orderedRun w (UpdateBookHandler_execute e cmd w)"
  unfolding UpdateBookHandler_execute_def
  by (simp add: orderedRun_early orderedRun_tail_update
      split: sum.splits option.splits prod.splits)

lemma markAsFinished_ordered:
  "w_calls w = [] \<Longrightarrow> orderedRun w (MarkBookAsFinishedHandler_execute e cmd w)"
  unfolding MarkBookAsFinishedHandler_execute_def
  by (simp add: orderedRun_early orderedRun_tail split: sum.splits option.splits prod.splits)

lemma addQuote_ordered:
  "w_calls w = [] \<Longrightarrow> orderedRun w (AddQuoteHandler_execute e cmd w)"
  unfolding AddQuoteHandler_execute_def
  by (simp add: orderedRun_early orderedRun_tail split: sum.splits option.splits prod.splits)

lemma sort_key_unique:
  fixes f :: "'a \<Rightarrow> int"
  assumes "sorted_wrt (<) (map f ys)" "set xs = set ys" "distinct xs"
  shows "sort_key f xs = ys"
proof -
  from assms(1) have sy: "sorted (map f ys)" and dy: "distinct (map f ys)"
    by (simp_all add: strict_sorted_iff)
  from dy have inj: "inj_on f (set ys)" and dys: "distinct ys"
    by (simp_all add: distinct_map)
  have "map f (sort_key f xs) = map f ys"
  proof (rule sorted_distinct_set_unique)
    show "sorted (map f (sort_key f xs))" by simp
    show "distinct (map f (sort_key f xs))"
      using assms(2,3) inj by (simp add: distinct_map)
    show "sorted (map f ys)" by (rule sy)
    show "distinct (map f ys)" by (rule dy)
    show "set (map f (sort_key f xs)) = set (map f ys)"
      using assms(2) by simp
  qed
  moreover have "inj_on f (set (sort_key f xs) \<union> set ys)"
    using inj assms(2) by simp
  ultimately show ?thesis
    by (rule map_inj_on)
qed

lemma updatedQuoteRow_keys [simp]:
  "qr_id (updatedQuoteRow q r) = qr_id r" "qr_book_id (updatedQuoteRow q r) = qr_book_id r"
  "qr_created_at (updatedQuoteRow q r) = qr_created_at r"
  by (simp_all add: updatedQuoteRow_def)

lemma applyQuoteUpdates_keys [simp]:
  "qr_id (applyQuoteUpdates ex qs r) = qr_id r"
  "qr_book_id (applyQuoteUpdates ex qs r) = qr_book_id r"
  "qr_created_at (applyQuoteUpdates ex qs r) = qr_created_at r"
  by (induction qs arbitrary: r) simp_all

lemma applyQuoteUpdates_other: "qr_id r \<notin> set ex \<Longrightarrow> applyQuoteUpdates ex qs r = r"
  by (induction qs arbitrary: r) auto

lemma applyQuoteUpdates_absent: "qr_id r \<notin> q_id ` set qs \<Longrightarrow> applyQuoteUpdates ex qs r = r"
  by (induction qs arbitrary: r) auto

lemma applyQuoteUpdates_the:
  "distinct (map q_id qs) \<Longrightarrow> q \<in> set qs \<Longrightarrow> q_id q \<in> set ex \<Longrightarrow> qr_id r = q_id q \<Longrightarrow>
   applyQuoteUpdates ex qs r = updatedQuoteRow q r"
proof (induction qs arbitrary: r)
  case Nil
  then show ?case by simp
next
  case (Cons a qs)
  show ?case
  proof (cases "a = q")
    case True
    with Cons.prems have "qr_id (updatedQuoteRow q r) \<notin> q_id ` set qs"
      by auto
    with True Cons.prems show ?thesis
      by (simp add: applyQuoteUpdates_absent)
  next
    case False
    with Cons.prems have "q \<in> set qs" "q_id a \<noteq> q_id q"
      by auto
    with Cons show ?thesis
      by simp
  qed
qed

lemma upsertQuotes_rows:
  "upsertQuotes bid ex qs d = (Inr (), d') \<Longrightarrow>
   db_quotes d' = map (applyQuoteUpdates ex qs) (db_quotes d) @
                  map (insertedQuoteRow bid) (filter (\<lambda>q. q_id q \<notin> set ex) qs)"
proof (induction qs arbitrary: d)
  case Nil
  then show ?case by (simp add: map_idI)
next
  case (Cons q qs)
  show ?case
  proof (cases "q_id q \<in> set ex")
    case True
    with Cons.prems have
      "upsertQuotes bid ex qs (snd (updateQuoteRow q d)) = (Inr (), d')"
      by (simp add: updateQuoteRow_def)
    from Cons.IH [OF this] True show ?thesis
      by (simp add: updateQuoteRow_def comp_def cong: if_cong)
  next
    case False
    with Cons.prems have fresh: "q_id q \<notin> set (map qr_id (db_quotes d))"
      and rest: "upsertQuotes bid ex qs (snd (insertQuoteRow bid q d)) = (Inr (), d')"
      by (auto simp: insertQuoteRow_def split: if_splits)
    have "applyQuoteUpdates ex qs (insertedQuoteRow bid q) = insertedQuoteRow bid q"
      using False by (intro applyQuoteUpdates_other) (simp add: insertedQuoteRow_def)
    with Cons.IH [OF rest] False fresh show ?thesis
      by (simp add: insertQuoteRow_def)
  qed
qed

lemma fold_deleteQuoteRow:
  "db_quotes (fold (\<lambda>i d. if P i then deleteQuoteRow i d else d) ids db) =
     filter (\<lambda>r. \<not> (qr_id r \<in> set ids \<and> P (qr_id r))) (db_quotes db)"
  by (induction ids arbitrary: db) (auto simp: deleteQuoteRow_def intro: filter_cong)

lemma updatedQuoteRow_eq_inserted:
  "qr_id r = q_id q \<Longrightarrow> qr_book_id r = bid \<Longrightarrow> qr_created_at r = q_createdAt q \<Longrightarrow>
   updatedQuoteRow q r = insertedQuoteRow bid q"
  by (cases r) (simp add: updatedQuoteRow_def insertedQuoteRow_def)

lemma insertedQuoteRow_keys [simp]:
  "qr_id (insertedQuoteRow bid q) = q_id q" "qr_book_id (insertedQuoteRow bid q) = bid"
  "qr_created_at (insertedQuoteRow bid q) = q_createdAt q"
  by (simp_all add: insertedQuoteRow_def)

lemma syncQuotes_rows:
  assumes sync: "syncQuotes b d = (Inr (), d')"
    and keys: "distinct (map qr_id (db_quotes d))"
    and ids: "distinct (map q_id (quotes b))"
    and coh: "\<forall>r \<in> set (db_quotes d). qr_book_id r = bookId b \<longrightarrow>
               (\<forall>q \<in> set (quotes b). q_id q = qr_id r \<longrightarrow> q_createdAt q = qr_created_at r)"
    and sorted: "sorted_wrt (<) (map q_createdAt (quotes b))"
  shows "sort_key qr_created_at (filter (\<lambda>r. qr_book_id r = bookId b) (db_quotes d'))
           = map (insertedQuoteRow (bookId b)) (quotes b)"
proof -
  define bid where "bid = bookId b"
  define qs where "qs = quotes b"
  define ex where "ex = map qr_id (filter (\<lambda>r. qr_book_id r = bid) (db_quotes d))"
  define kept where "kept = filter (\<lambda>r. qr_book_id r = bid \<and> qr_id r \<in> q_id ` set qs) (db_quotes d)"
  define fresh where "fresh = filter (\<lambda>q. q_id q \<notin> set ex) qs"
  define d1 where "d1 = fold (\<lambda>existingId d. if existingId \<notin> set (map q_id qs)
                                       then deleteQuoteRow existingId d else d) ex d"
  from sync have up: "upsertQuotes bid ex qs d1 = (Inr (), d')"
    by (simp add: syncQuotes_def Let_def bid_def qs_def ex_def d1_def)
  have q1: "db_quotes d1 = filter (\<lambda>r. \<not> (qr_id r \<in> set ex \<and> qr_id r \<notin> set (map q_id qs))) (db_quotes d)"
    unfolding d1_def by (rule fold_deleteQuoteRow)
  have book_q1: "filter (\<lambda>r. qr_book_id r = bid) (db_quotes d1) = kept"
    unfolding q1 kept_def filter_filter
    by (rule filter_cong) (auto simp: ex_def)
  have rows: "filter (\<lambda>r. qr_book_id r = bid) (db_quotes d') =
                map (applyQuoteUpdates ex qs) kept @ map (insertedQuoteRow bid) fresh"
    unfolding upsertQuotes_rows [OF up] fresh_def
    by (simp add: filter_map comp_def book_q1)
  have kept_row: "applyQuoteUpdates ex qs r = insertedQuoteRow bid q"
    if "r \<in> set kept" "q \<in> set qs" "q_id q = qr_id r" for r q
  proof -
    from that have r: "r \<in> set (db_quotes d)" "qr_book_id r = bid"
      by (simp_all add: kept_def)
    then have "q_id q \<in> set ex"
      using that by (force simp: ex_def)
    with ids that have "applyQuoteUpdates ex qs r = updatedQuoteRow q r"
      by (intro applyQuoteUpdates_the) (simp_all add: qs_def)
    moreover from coh r that have "qr_created_at r = q_createdAt q"
      by (simp add: bid_def qs_def)
    ultimately show ?thesis
      using r that by (simp add: updatedQuoteRow_eq_inserted)
  qed
  have set_eq: "set (map (applyQuoteUpdates ex qs) kept @ map (insertedQuoteRow bid) fresh)
                  = set (map (insertedQuoteRow bid) qs)"
  proof (intro equalityI subsetI)
    fix x
    assume "x \<in> set (map (applyQuoteUpdates ex qs) kept @ map (insertedQuoteRow bid) fresh)"
    then consider r where "r \<in> set kept" "x = applyQuoteUpdates ex qs r"
      | q where "q \<in> set fresh" "x = insertedQuoteRow bid q"
      by auto
    then show "x \<in> set (map (insertedQuoteRow bid) qs)"
    proof cases
      case 1
      then obtain q where "q \<in> set qs" "q_id q = qr_id r"
        by (auto simp: kept_def)
      with 1 kept_row show ?thesis
        by auto
    next
      case 2
      then show ?thesis
        by (auto simp: fresh_def)
    qed
  next
    fix x
    assume "x \<in> set (map (insertedQuoteRow bid) qs)"
    then obtain q where q: "q \<in> set qs" "x = insertedQuoteRow bid q"
      by auto
    show "x \<in> set (map (applyQuoteUpdates ex qs) kept @ map (insertedQuoteRow bid) fresh)"
    proof (cases "q_id q \<in> set ex")
      case True
      then obtain r where "r \<in> set (db_quotes d)" "qr_book_id r = bid" "qr_id r = q_id q"
        by (auto simp: ex_def)
      with q have r: "r \<in> set kept" "q_id q = qr_id r"
        by (auto simp: kept_def)
      with q kept_row [of r q] have "x = applyQuoteUpdates ex qs r"
        by simp
      with r show ?thesis
        by auto
    next
      case False
      with q show ?thesis
        by (auto simp: fresh_def)
    qed
  qed
  have "distinct (map qr_id kept)"
    unfolding kept_def using keys by (rule distinct_map_filter)
  moreover have "distinct (map q_id fresh)"
    unfolding fresh_def using ids by (simp add: qs_def distinct_map_filter)
  moreover have "set (map qr_id kept) \<subseteq> set ex"
    by (auto simp: kept_def ex_def)
  then have "set (map qr_id kept) \<inter> set (map q_id fresh) = {}"
    by (auto simp: fresh_def)
  ultimately have "distinct (map qr_id
      (map (applyQuoteUpdates ex qs) kept @ map (insertedQuoteRow bid) fresh))"
    by (simp add: comp_def)
  then have dist: "distinct (map (applyQuoteUpdates ex qs) kept @ map (insertedQuoteRow bid) fresh)"
    by (simp only: distinct_map)
  have "sorted_wrt (<) (map qr_created_at (map (insertedQuoteRow bid) qs))"
    using sorted by (simp add: comp_def qs_def)
  from sort_key_unique [OF this set_eq dist] rows show ?thesis
    by (simp add: bid_def qs_def)
qed

lemma updatedNoteRow_keys [simp]:
  "nr_id (updatedNoteRow q r) = nr_id r" "nr_book_id (updatedNoteRow q r) = nr_book_id r"
  "nr_created_at (updatedNoteRow q r) = nr_created_at r"
  by (simp_all add: updatedNoteRow_def)

lemma applyNoteUpdates_keys [simp]:
  "nr_id (applyNoteUpdates ex qs r) = nr_id r"
  "nr_book_id (applyNoteUpdates ex qs r) = nr_book_id r"
  "nr_created_at (applyNoteUpdates ex qs r) = nr_created_at r"
  by (induction qs arbitrary: r) simp_all

lemma applyNoteUpdates_other: "nr_id r \<notin> set ex \<Longrightarrow> applyNoteUpdates ex qs r = r"
  by (induction qs arbitrary: r) auto

lemma applyNoteUpdates_absent: "nr_id r \<notin> n_id ` set qs \<Longrightarrow> applyNoteUpdates ex qs r = r"
  by (induction qs arbitrary: r) auto

lemma applyNoteUpdates_the:
  "distinct (map n_id qs) \<Longrightarrow> q \<in> set qs \<Longrightarrow> n_id q \<in> set ex \<Longrightarrow> nr_id r = n_id q \<Longrightarrow>
   applyNoteUpdates ex qs r = updatedNoteRow q r"
proof (induction qs arbitrary: r)
  case Nil
  then show ?case by simp
next
  case (Cons a qs)
  show ?case
  proof (cases "a = q")
    case True
    with Cons.prems have "nr_id (updatedNoteRow q r) \<notin> n_id ` set qs"
      by auto
    with True Cons.prems show ?thesis
      by (simp add: applyNoteUpdates_absent)
  next
    case False
    with Cons.prems have "q \<in> set qs" "n_id a \<noteq> n_id q"
      by auto
    with Cons show ?thesis
      by simp
  qed
qed

lemma upsertNotes_rows:
  "upsertNotes bid ex qs d = (Inr (), d') \<Longrightarrow>
   db_notes d' = map (applyNoteUpdates ex qs) (db_notes d) @
                  map (insertedNoteRow bid) (filter (\<lambda>q. n_id q \<notin> set ex) qs)"
proof (induction qs arbitrary: d)
  case Nil
  then show ?case by (simp add: map_idI)
next
  case (Cons q qs)
  show ?case
  proof (cases "n_id q \<in> set ex")
    case True
    with Cons.prems have
      "upsertNotes bid ex qs (snd (updateNoteRow q d)) = (Inr (), d')"
      by (simp add: updateNoteRow_def)
    from Cons.IH [OF this] True show ?thesis
      by (simp add: updateNoteRow_def comp_def cong: if_cong)
  next
    case False
    with Cons.prems have fresh: "n_id q \<notin> set (map nr_id (db_notes d))"
      and rest: "upsertNotes bid ex qs (snd (insertNoteRow bid q d)) = (Inr (), d')"
      by (auto simp: insertNoteRow_def split: if_splits)
    have "applyNoteUpdates ex qs (insertedNoteRow bid q) = insertedNoteRow bid q"
      using False by (intro applyNoteUpdates_other) (simp add: insertedNoteRow_def)
    with Cons.IH [OF rest] False fresh show ?thesis
      by (simp add: insertNoteRow_def)
  qed
qed

lemma fold_deleteNoteRow:
  "db_notes (fold (\<lambda>i d. if P i then deleteNoteRow i d else d) ids db) =
     filter (\<lambda>r. \<not> (nr_id r \<in> set ids \<and> P (nr_id r))) (db_notes db)"
  by (induction ids arbitrary: db) (auto simp: deleteNoteRow_def intro: filter_cong)

lemma updatedNoteRow_eq_inserted:
  "nr_id r = n_id q \<Longrightarrow> nr_book_id r = bid \<Longrightarrow> nr_created_at r = n_createdAt q \<Longrightarrow>
   updatedNoteRow q r = insertedNoteRow bid q"
  by (cases r) (simp add: updatedNoteRow_def insertedNoteRow_def)

lemma insertedNoteRow_keys [simp]:
  "nr_id (insertedNoteRow bid q) = n_id q" "nr_book_id (insertedNoteRow bid q) = bid"
  "nr_created_at (insertedNoteRow bid q) = n_createdAt q"
  by (simp_all add: insertedNoteRow_def)

lemma syncNotes_rows:
  assumes sync: "syncNotes b d = (Inr (), d')"
    and keys: "distinct (map nr_id (db_notes d))"
    and ids: "distinct (map n_id (notes' b))"
    and coh: "\<forall>r \<in> set (db_notes d). nr_book_id r = bookId b \<longrightarrow>
               (\<forall>q \<in> set (notes' b). n_id q = nr_id r \<longrightarrow> n_createdAt q = nr_created_at r)"
    and sorted: "sorted_wrt (<) (map n_createdAt (notes' b))"
  shows "sort_key nr_created_at (filter (\<lambda>r. nr_book_id r = bookId b) (db_notes d'))
           = map (insertedNoteRow (bookId b)) (notes' b)"
proof -
  define bid where "bid = bookId b"
  define qs where "qs = notes' b"
  define ex where "ex = map nr_id (filter (\<lambda>r. nr_book_id r = bid) (db_notes d))"
  define kept where "kept = filter (\<lambda>r. nr_book_id r = bid \<and> nr_id r \<in> n_id ` set qs) (db_notes d)"
  define fresh where "fresh = filter (\<lambda>q. n_id q \<notin> set ex) qs"
  define d1 where "d1 = fold (\<lambda>existingId d. if existingId \<notin> set (map n_id qs)
                                       then deleteNoteRow existingId d else d) ex d"
  from sync have up: "upsertNotes bid ex qs d1 = (Inr (), d')"
    by (simp add: syncNotes_def Let_def bid_def qs_def ex_def d1_def)
  have q1: "db_notes d1 = filter (\<lambda>r. \<not> (nr_id r \<in> set ex \<and> nr_id r \<notin> set (map n_id qs))) (db_notes d)"
    unfolding d1_def by (rule fold_deleteNoteRow)
  have book_q1: "filter (\<lambda>r. nr_book_id r = bid) (db_notes d1) = kept"
    unfolding q1 kept_def filter_filter
    by (rule filter_cong) (auto simp: ex_def)
  have rows: "filter (\<lambda>r. nr_book_id r = bid) (db_notes d') =
                map (applyNoteUpdates ex qs) kept @ map (insertedNoteRow bid) fresh"
    unfolding upsertNotes_rows [OF up] fresh_def
    by (simp add: filter_map comp_def book_q1)
  have kept_row: "applyNoteUpdates ex qs r = insertedNoteRow bid q"
    if "r \<in> set kept" "q \<in> set qs" "n_id q = nr_id r" for r q
  proof -
    from that have r: "r \<in> set (db_notes d)" "nr_book_id r = bid"
      by (simp_all add: kept_def)
    then have "n_id q \<in> set ex"
      using that by (force simp: ex_def)
    with ids that have "applyNoteUpdates ex qs r = updatedNoteRow q r"
      by (intro applyNoteUpdates_the) (simp_all add: qs_def)
    moreover from coh r that have "nr_created_at r = n_createdAt q"
      by (simp add: bid_def qs_def)
    ultimately show ?thesis
      using r that by (simp add: updatedNoteRow_eq_inserted)
  qed
  have set_eq: "set (map (applyNoteUpdates ex qs) kept @ map (insertedNoteRow bid) fresh)
                  = set (map (insertedNoteRow bid) qs)"
  proof (intro equalityI subsetI)
    fix x
    assume "x \<in> set (map (applyNoteUpdates ex qs) kept @ map (insertedNoteRow bid) fresh)"
    then consider r where "r \<in> set kept" "x = applyNoteUpdates ex qs r"
      | q where "q \<in> set fresh" "x = insertedNoteRow bid q"
      by auto
    then show "x \<in> set (map (insertedNoteRow bid) qs)"
    proof cases
      case 1
      then obtain q where "q \<in> set qs" "n_id q = nr_id r"
        by (auto simp: kept_def)
      with 1 kept_row show ?thesis
        by auto
    next
      case 2
      then show ?thesis
        by (auto simp: fresh_def)
    qed
  next
    fix x
    assume "x \<in> set (map (insertedNoteRow bid) qs)"
    then obtain q where q: "q \<in> set qs" "x = insertedNoteRow bid q"
      by auto
    show "x \<in> set (map (applyNoteUpdates ex qs) kept @ map (insertedNoteRow bid) fresh)"
    proof (cases "n_id q \<in> set ex")
      case True
      then obtain r where "r \<in> set (db_notes d)" "nr_book_id r = bid" "nr_id r = n_id q"
        by (auto simp: ex_def)
      with q have r: "r \<in> set kept" "n_id q = nr_id r"
        by (auto simp: kept_def)
      with q kept_row [of r q] have "x = applyNoteUpdates ex qs r"
        by simp
      with r show ?thesis
        by auto
    next
      case False
      with q show ?thesis
        by (auto simp: fresh_def)
    qed
  qed
  have "distinct (map nr_id kept)"
    unfolding kept_def using keys by (rule distinct_map_filter)
  moreover have "distinct (map n_id fresh)"
    unfolding fresh_def using ids by (simp add: qs_def distinct_map_filter)
  moreover have "set (map nr_id kept) \<subseteq> set ex"
    by (auto simp: kept_def ex_def)
  then have "set (map nr_id kept) \<inter> set (map n_id fresh) = {}"
    by (auto simp: fresh_def)
  ultimately have "distinct (map nr_id
      (map (applyNoteUpdates ex qs) kept @ map (insertedNoteRow bid) fresh))"
    by (simp add: comp_def)
  then have dist: "distinct (map (applyNoteUpdates ex qs) kept @ map (insertedNoteRow bid) fresh)"
    by (simp only: distinct_map)
  have "sorted_wrt (<) (map nr_created_at (map (insertedNoteRow bid) qs))"
    using sorted by (simp add: comp_def qs_def)
  from sort_key_unique [OF this set_eq dist] rows show ?thesis
    by (simp add: bid_def qs_def)
qed

lemma quotes_row_statement:
  "db_quotes (snd (update_book b db)) = db_quotes db" "db_quotes (snd (insert_book b db)) = db_quotes db"
  "db_notes (snd (update_book b db)) = db_notes db" "db_notes (snd (insert_book b db)) = db_notes db"
  by (simp_all add: update_book_def insert_book_def Let_def)

lemma notes_fold_deleteQuote:
  "db_notes (fold (\<lambda>i d. if P i then deleteQuoteRow i d else d) ids db) = db_notes db"
  by (induction ids arbitrary: db) (simp_all add: deleteQuoteRow_def)

lemma notes_upsertQuotes: "db_notes (snd (upsertQuotes bid ex qs db)) = db_notes db"
  by (induction qs arbitrary: db)
     (auto simp: updateQuoteRow_def insertQuoteRow_def split: prod.splits sum.splits)

lemma notes_syncQuotes: "db_notes (snd (syncQuotes b db)) = db_notes db"
  by (simp add: syncQuotes_def Let_def notes_upsertQuotes notes_fold_deleteQuote)

lemma quotes_fold_deleteNote:
  "db_quotes (fold (\<lambda>i d. if P i then deleteNoteRow i d else d) ids db) = db_quotes db"
  by (induction ids arbitrary: db) (simp_all add: deleteNoteRow_def)

lemma quotes_upsertNotes: "db_quotes (snd (upsertNotes bid ex ns db)) = db_quotes db"
  by (induction ns arbitrary: db)
     (auto simp: updateNoteRow_def insertNoteRow_def split: prod.splits sum.splits)

lemma quotes_syncNotes: "db_quotes (snd (syncNotes b db)) = db_quotes db"
  by (simp add: syncNotes_def Let_def quotes_upsertNotes quotes_fold_deleteNote)

lemma filter_key_single:
  "distinct (map f xs) \<Longrightarrow> x \<in> set xs \<Longrightarrow> filter (\<lambda>y. f y = f x) xs = [x]"
proof (induction xs)
  case Nil
  then show ?case by simp
next
  case (Cons a xs)
  show ?case
  proof (cases "a = x")
    case True
    with Cons.prems have "filter (\<lambda>y. f y = f x) xs = []"
      by (auto simp: filter_empty_conv image_iff)
    with True show ?thesis by simp
  next
    case False
    with Cons.prems have "x \<in> set xs" "f a \<noteq> f x"
      by (auto simp: image_iff)
    with Cons show ?thesis by simp
  qed
qed

lemma updatedBookRow_eq_inserted:
  "br_id r = bookId b \<Longrightarrow> br_version r = version b \<Longrightarrow> br_author_id r = authorId b \<Longrightarrow>
   br_created_at r = createdAt b \<Longrightarrow> updatedBookRow b r = insertedBookRow b"
  by (cases r) (simp add: updatedBookRow_def insertedBookRow_def)

lemma book_row_after_save:
  assumes saved: "save b db = (Inr (), db')"
    and keys: "distinct (map br_id (db_books db))"
    and coh: "\<forall>r \<in> set (db_books db). br_id r = bookId b \<longrightarrow>
                br_author_id r = authorId b \<and> br_created_at r = createdAt b"
  shows "filter (\<lambda>r. br_id r = bookId b) (db_books db') = [insertedBookRow b]"
proof (cases "bookId b \<in> set (map br_id (db_books db))")
  case True
  from saved obtain c2 c3 where
    s1: "(if bookId b \<in> set (map br_id (db_books db)) then update_book b db else insert_book b db)
       = (Inr (), c2)"
    by (rule save_Inr_steps)
  with True have "update_book b db = (Inr (), c2)"
    by simp
  then have "filter (updateMatches b) (db_books db) \<noteq> []"
    by (auto simp: update_book_def Let_def split: if_splits)
  then obtain r0 where r0: "r0 \<in> set (db_books db)" "updateMatches b r0"
    by (auto simp: filter_empty_conv)
  then have id0: "br_id r0 = bookId b" and v0: "br_version r0 = version b"
    by (simp_all add: updateMatches_def)
  from filter_key_single [OF keys r0(1)] id0
  have single: "filter (\<lambda>r. br_id r = bookId b) (db_books db) = [r0]"
    by simp
  from True save_books_eq [OF saved]
  have "db_books db' = map (\<lambda>r. if updateMatches b r then updatedBookRow b r else r) (db_books db)"
    by (simp add: update_book_books)
  then have "filter (\<lambda>r. br_id r = bookId b) (db_books db') =
          map (\<lambda>r. if updateMatches b r then updatedBookRow b r else r)
            (filter (\<lambda>r. br_id r = bookId b) (db_books db))"
    by (simp add: filter_map comp_def updatedBookRow_id if_distrib [of br_id] cong: if_cong)
  also have "\<dots> = [updatedBookRow b r0]"
    using single r0(2) by simp
  also from coh r0(1) id0 v0 have "updatedBookRow b r0 = insertedBookRow b"
    by (intro updatedBookRow_eq_inserted) simp_all
  finally show ?thesis .
next
  case False
  with save_books_eq [OF saved] have "db_books db' = db_books db @ [insertedBookRow b]"
    by (simp add: insert_book_def)
  moreover from False have "filter (\<lambda>r. br_id r = bookId b) (db_books db) = []"
    by (force simp: filter_empty_conv image_iff)
  ultimately show ?thesis
    by (simp add: insertedBookRow_def)
qed

lemma BookId_fromString_ok: "trim v \<noteq> [] \<Longrightarrow> BookId_fromString v = Inr v"
  by (auto simp: BookId_fromString_def trim_def)

lemma QuoteId_fromString_ok: "trim v \<noteq> [] \<Longrightarrow> QuoteId_fromString v = Inr v"
  by (auto simp: QuoteId_fromString_def trim_def)

lemma NoteId_fromString_ok: "trim v \<noteq> [] \<Longrightarrow> NoteId_fromString v = Inr v"
  by (auto simp: NoteId_fromString_def trim_def)

lemma reconstitute_quotes:
  "trim bid \<noteq> [] \<Longrightarrow> \<forall>q \<in> set qs. q_bookId q = bid \<and> trim (q_id q) \<noteq> [] \<Longrightarrow>
   mapThrowing Quote_reconstitute (map (insertedQuoteRow bid) qs) = Inr qs"
  by (induction qs)
     (simp_all add: Quote_reconstitute_def insertedQuoteRow_def QuoteId_fromString_ok
        BookId_fromString_ok)

lemma reconstitute_notes:
  "trim bid \<noteq> [] \<Longrightarrow> \<forall>n \<in> set ns. n_bookId n = bid \<and> trim (n_id n) \<noteq> [] \<Longrightarrow>
   mapThrowing Note_reconstitute (map (insertedNoteRow bid) ns)
     = Inr (map (\<lambda>n. n\<lparr> n_updatedAt := n_createdAt n \<rparr>) ns)"
  by (induction ns)
     (simp_all add: Note_reconstitute_def insertedNoteRow_def NoteId_fromString_ok
        BookId_fromString_ok)

lemma ReadingStatus_roundtrip: "ReadingStatus_fromString (statusString s) = Inr s"
  by (cases s) (simp_all add: ReadingStatus_fromString_def)

lemma toAggregate_inserted:
  assumes "wellFormed b"
  shows "toAggregate (insertedBookRow b) (map (insertedQuoteRow (bookId b)) (quotes b))
           (map (insertedNoteRow (bookId b)) (notes' b)) = Inr (reloaded b)"
proof -
  from assms have q: "mapThrowing Quote_reconstitute
      (map (insertedQuoteRow (bookId b)) (quotes b)) = Inr (quotes b)"
    by (intro reconstitute_quotes) (simp_all add: wellFormed_def)
  from assms have n: "mapThrowing Note_reconstitute
      (map (insertedNoteRow (bookId b)) (notes' b))
        = Inr (map (\<lambda>n. n\<lparr> n_updatedAt := n_createdAt n \<rparr>) (notes' b))"
    by (intro reconstitute_notes) (simp_all add: wellFormed_def)
  from assms have i: "BookId_fromString (bookId b) = Inr (bookId b)"
    by (intro BookId_fromString_ok) (simp add: wellFormed_def)
  from assms have f: "isbn b \<noteq> Some []" "rating b \<noteq> Some 0"
    by (simp_all add: wellFormed_def)
  show ?thesis
    using f q n i
    by (cases b)
       (simp add: toAggregate_def reconstitute_def insertedBookRow_def
          ReadingStatus_roundtrip reloaded_def split: option.splits)
qed

subsection \<open>Book.create\<close>

text \<open>
  C7. Every input that \<open>Book.create\<close> accepts gives an aggregate at version 0 whose
  outbox holds exactly one event, the \<open>BookCreatedEvent\<close> carrying the aggregate's
  bookId, title, authorId, pageCount, isbn, yearRead and status; these are the generated
  id, the normalised title, the trimmed author id and the given page count, year and
  status (\<open>TO_READ\<close> when none is given).
\<close>

theorem create_version_zero_single_created_event:
  "create e props = Inr b \<Longrightarrow>
     version b = 0 \<and>
     domainEvents b =
       [\<lparr> eventId = newEventId e, occurredAt = now e,
          payload = BookCreatedEvent
            \<lparr> bc_bookId = bookId b, bc_title = title b, bc_authorId = authorId b,
              bc_pageCount = pageCount b, bc_isbn = isbn b, bc_yearRead = yearRead b,
              bc_status = statusString (status b) \<rparr> \<rparr>] \<and>
     bookId b = newId e \<and>
     Title_create (p_title props) = Inr (title b) \<and>
     authorId b = trim (p_authorId props) \<and>
     pageCount b = p_pageCount props \<and>
     yearRead b = (case p_yearRead props of Undefined \<Rightarrow> None | Defined y \<Rightarrow> Some y) \<and>
     status b = (case p_status props of Undefined \<Rightarrow> TO_READ | Defined s \<Rightarrow> s)"
  unfolding create_def Let_def addDomainEvent_def newEvent_def
  by (auto split: sum.splits if_splits simp: PageCount_create_def)

theorem create_version_zero_single_created_event_witness:
  "create env0 props0 = Inr book0 \<and> version book0 = 0 \<and>
   domainEvents book0 = [createdEvent0] \<and> title book0 = ''Domain-Driven Design''"
proof -
  have run: "create env0 props0 = Inr book0"
    by code_simp
  from create_version_zero_single_created_event [OF run] have "version book0 = 0"
    by simp
  with run show ?thesis
    by (simp add: book0_def)
qed

subsection \<open>Status transitions\<close>

text \<open>
  C3, as the claim states it, fails: \<open>markAsFinished\<close> never consults the transition
  table. An abandoned book (\<open>ABANDONED\<close> to \<open>FINISHED\<close> is not in the table) is moved to
  \<open>FINISHED\<close>, and a \<open>BookFinishedEvent\<close> is appended to its outbox.
\<close>

theorem markAsFinished_ignores_transition_table:
  "\<not> canTransition (status abandonedBook) FINISHED \<and>
   markAsFinished env0 2024 (Defined 5) abandonedBook =
     (Inr (), abandonedBook
        \<lparr> status := FINISHED, yearRead := Some 2024, rating := Some 5,
          domainEvents :=
            [\<lparr> eventId = ''ev-1'', occurredAt = 1700000000000,
               payload = BookFinishedEvent
                 \<lparr> bf_bookId = ''id-1'', bf_authorId = ''author-123'',
                   bf_title = ''Domain-Driven Design'', bf_pageCount = 560, bf_yearRead = 2024,
                   bf_rating = Some 5, bf_finishedAt = 1700000000000 \<rparr> \<rparr>] \<rparr>)"
  by code_simp

text \<open>
  C3, amended. For every Book and every target status that differs from the current one
  and is not in the allowed-transition table of the current status, \<open>changeStatus\<close>
  throws a \<open>DomainException\<close> with the code \<open>INVALID_STATUS_TRANSITION\<close> and leaves
  the aggregate as it was: version, status, every other field and the outbox.
\<close>

theorem changeStatus_illegal_transition_rejected:
  "newStatus \<noteq> status b \<Longrightarrow> \<not> canTransition (status b) newStatus \<Longrightarrow>
   changeStatus e newStatus b =
     (Inl (DomainException
             (''Cannot transition from '' @ statusString (status b) @ '' to ''
                @ statusString newStatus)
             ''INVALID_STATUS_TRANSITION''), b)"
  by (simp add: changeStatus_def)

theorem changeStatus_illegal_transition_rejected_witness:
  "FINISHED \<noteq> status abandonedBook \<and> \<not> canTransition (status abandonedBook) FINISHED \<and>
   changeStatus env0 FINISHED abandonedBook =
     (Inl (DomainException ''Cannot transition from ABANDONED to FINISHED''
             ''INVALID_STATUS_TRANSITION''), abandonedBook)"
proof -
  have neq: "FINISHED \<noteq> status abandonedBook"
    by (simp add: abandonedBook_def book0_def)
  have illegal: "\<not> canTransition (status abandonedBook) FINISHED"
    by (simp add: abandonedBook_def book0_def canTransition_def)
  from changeStatus_illegal_transition_rejected [OF neq illegal, of env0] neq illegal
  show ?thesis
    by (simp add: abandonedBook_def book0_def)
qed

text \<open>
  C10. When \<open>yearRead\<close> is null and the transition to \<open>FINISHED\<close> is allowed,
  \<open>changeStatus\<close> sets \<open>yearRead\<close> to the current year and appends exactly one
  \<open>BookUpdatedEvent\<close>, whose change-set has the single key \<open>status\<close>; projecting
  that event leaves the \<open>yearRead\<close> of every read document as it was.
\<close>

theorem changeStatus_finished_sets_yearRead_outside_event:
  "yearRead b = None \<Longrightarrow> canTransition (status b) FINISHED \<Longrightarrow>
   (let ev = newEvent e (BookUpdatedEvent
               \<lparr> bu_bookId = bookId b,
                 bu_changes = noChanges\<lparr> ch_status := Defined ''FINISHED'' \<rparr>,
                 bu_updatedAt = now e \<rparr>)
    in changeStatus e FINISHED b =
         (Inr (), b\<lparr> status := FINISHED, updatedAt := now e,
                     domainEvents := domainEvents b @ [ev],
                     yearRead := Some (currentYear e) \<rparr>) \<and>
       changeKeys (noChanges\<lparr> ch_status := Defined ''FINISHED'' \<rparr>) = [''status''] \<and>
       ch_yearRead (noChanges\<lparr> ch_status := Defined ''FINISHED'' \<rparr>) = Undefined \<and>
       map d_yearRead (snd (projectionRouter e' (payload ev) coll)) = map d_yearRead coll)"
proof -
  assume y: "yearRead b = None" and t: "canTransition (status b) FINISHED"
  from t have ne: "status b \<noteq> FINISHED"
    by (cases "status b") (simp_all add: canTransition_def)
  have keep: "\<And>p d. ch_yearRead (bu_changes p) = Undefined \<Longrightarrow>
                d_yearRead (setUpdateFields p d) = d_yearRead d"
    by (simp add: setUpdateFields_def Let_def split: optional.splits)
  show ?thesis
    using y t ne
    by (simp add: changeStatus_def Let_def addDomainEvent_def newEvent_def noChanges_def
        changeKeys_def onBookUpdated_def updateOne_map_unchanged keep)
qed

theorem changeStatus_finished_sets_yearRead_outside_event_witness:
  "yearRead loadedBook = None \<and> canTransition (status loadedBook) FINISHED \<and>
   yearRead (snd (changeStatus env0 FINISHED loadedBook)) = Some 2024 \<and>
   map (\<lambda>ev. case payload ev of BookUpdatedEvent p \<Rightarrow> changeKeys (bu_changes p) | _ \<Rightarrow> [])
     (domainEvents (snd (changeStatus env0 FINISHED loadedBook))) = [[''status'']] \<and>
   map d_yearRead
     (snd (projectionRouter env1
        (payload (last (domainEvents (snd (changeStatus env0 FINISHED loadedBook))))) [doc0]))
     = [None]"
proof -
  have y: "yearRead loadedBook = None"
    by (simp add: loadedBook_def book0_def)
  have t: "canTransition (status loadedBook) FINISHED"
    by (simp add: loadedBook_def book0_def canTransition_def)
  from changeStatus_finished_sets_yearRead_outside_event [OF y t, of env0 env1 "[doc0]"] y t
  show ?thesis
    by (simp add: Let_def newEvent_def loadedBook_def env0_def doc0_def)
qed

subsection \<open>Book.updateDetails\<close>

text \<open>
  C6 fails on the rating. A book without a rating that is updated with \<open>rating: null\<close>,
  its current value, is given a \<open>BookUpdatedEvent\<close> with the change-set
  \<open>{ rating: null }\<close>, and its \<open>updatedAt\<close> is advanced: the comparison
  \<open>newRating?.value !== currentRating\<close> is \<open>undefined !== null\<close>.
\<close>

theorem updateDetails_null_rating_emits_event:
  "rating loadedBook = None \<and> domainEvents loadedBook = [] \<and>
   updateDetails env1 ratingNull loadedBook =
     (Inr (), loadedBook
        \<lparr> updatedAt := 1700000005000,
          domainEvents :=
            [\<lparr> eventId = ''ev-2'', occurredAt = 1700000005000,
               payload = BookUpdatedEvent
                 \<lparr> bu_bookId = ''id-1'', bu_changes = noChanges\<lparr> ch_rating := Defined None \<rparr>,
                   bu_updatedAt = 1700000005000 \<rparr> \<rparr>] \<rparr>)"
  by code_simp

text \<open>
  The other fields, and a rating that is a number, are compared as the claim says: when
  every given value is, after the normalisation of \<open>updateDetails\<close>, the current value,
  the aggregate is left as it was, outbox and \<open>updatedAt\<close> included.
\<close>

lemma updateDetails_same_values_noop:
  assumes "case dc_title c of Undefined \<Rightarrow> True | Defined t \<Rightarrow> Title_create t = Inr (title b)"
    and "case dc_pageCount c of Undefined \<Rightarrow> True
         | Defined n \<Rightarrow> PageCount_create n = Inr (pageCount b)"
    and "case dc_yearRead c of Undefined \<Rightarrow> True
         | Defined y \<Rightarrow> y = yearRead b \<and>
             (case y of None \<Rightarrow> True | Some v \<Rightarrow> validateYearRead e v = Inr ())"
    and "case dc_rating c of Undefined \<Rightarrow> True
         | Defined r \<Rightarrow> r = rating b \<and>
             (case r of None \<Rightarrow> False | Some v \<Rightarrow> Rating_create v = Inr v)"
    and "case dc_coverUrl c of Undefined \<Rightarrow> True
         | Defined u \<Rightarrow>
             (case u of None \<Rightarrow> None | Some s \<Rightarrow> if trim s = [] then None else Some (trim s))
               = coverUrl b"
  shows "updateDetails e c b = (Inr (), b)"
proof -
  from assms(1) have t: "updateTitle (dc_title c) (b, noChanges) = Inr (b, noChanges)"
    by (simp add: updateTitle_def split: optional.splits)
  from assms(2) have p: "updatePageCount (dc_pageCount c) (b, noChanges) = Inr (b, noChanges)"
    by (simp add: updatePageCount_def split: optional.splits)
  from assms(3) have y: "updateYearRead e (dc_yearRead c) (b, noChanges) = Inr (b, noChanges)"
    by (auto simp: updateYearRead_def split: optional.splits option.splits)
  from assms(4) have r: "updateRating (dc_rating c) (b, noChanges) = Inr (b, noChanges)"
    by (auto simp: updateRating_def optionalChainValue_def valueOrNull_def
        split: optional.splits option.splits)
  from assms(5) have u: "updateCoverUrl (dc_coverUrl c) (b, noChanges) = (b, noChanges)"
    by (simp add: updateCoverUrl_def Let_def split: optional.splits)
  have k: "changeKeys noChanges = []"
    by (simp add: noChanges_def changeKeys_def)
  show ?thesis
    by (simp add: updateDetails_def t p y r u k)
qed

subsection \<open>The publisher\<close>

text \<open>
  C8. On a connected channel \<open>publishAll\<close> hands every event of the list to the broker,
  one message per event, after the messages already sent and in the order of the list;
  the routing key of each message is the name of its event and its content is the
  event's serialisation. Without a channel the first \<open>publish\<close> throws and nothing is
  sent.
\<close>

theorem publishAll_publishes_in_list_order:
  "publishAll e evs (Some ms) = (Inr (), Some (ms @ map (toMessage e) evs)) \<and>
   map m_routingKey (map (toMessage e) evs) = map eventName evs \<and>
   map m_content (map (toMessage e) evs) = map toJSON evs \<and>
   map m_exchange (map (toMessage e) evs) = map (\<lambda>ev. EXCHANGE_NAME) evs \<and>
   publishAll e (ev # evs) None =
     (Inl (Error ''RabbitMQ not connected. Call connectRabbitMQ() first.''), None)"
  by (simp add: publishAll_connected toMessage_def comp_def publish_def getChannel_def)

subsection \<open>Projections\<close>

text \<open>
  C1, as the claim states it, fails: \<open>onQuoteAdded\<close> applied twice to the document of
  the book pushes the quote twice and counts it twice.
\<close>

theorem onQuoteAdded_twice_duplicates_quote:
  "snd (onQuoteAdded env1 quoteAdded0 (snd (onQuoteAdded env1 quoteAdded0 [doc0])))
     \<noteq> snd (onQuoteAdded env1 quoteAdded0 [doc0]) \<and>
   snd (onQuoteAdded env1 quoteAdded0 [doc0])
     = [doc0\<lparr> d_quotes := [quoteDoc0], d_quotesCount := 1, d_updatedAt := 1700000005000 \<rparr>] \<and>
   snd (onQuoteAdded env1 quoteAdded0 (snd (onQuoteAdded env1 quoteAdded0 [doc0])))
     = [doc0\<lparr> d_quotes := [quoteDoc0, quoteDoc0], d_quotesCount := 2,
              d_updatedAt := 1700000005000 \<rparr>]"
  by code_simp

text \<open>
  C1, amended. On a collection whose \<open>_id\<close>s are unique, applying \<open>onBookUpdated\<close> or
  \<open>onBookDeleted\<close> twice to the same event gives the result of applying it once;
  applying \<open>onBookCreated\<close> twice gives the collection of applying it once, which holds
  exactly one document of the book (the repeated \<open>insertOne\<close> is rejected as a duplicate
  key). \<open>onQuoteAdded\<close> is not idempotent: the second application pushes the quote and
  increments \<open>quotesCount\<close> again.
\<close>

theorem projections_applied_twice:
  assumes "distinct (map d_id c)"
  shows "onBookUpdated pu (snd (onBookUpdated pu c)) = onBookUpdated pu c \<and>
         onBookDeleted pd (snd (onBookDeleted pd c)) = onBookDeleted pd c \<and>
         snd (onBookCreated e2 pc (snd (onBookCreated e1 pc c))) = snd (onBookCreated e1 pc c) \<and>
         length (filter (\<lambda>d. d_id d = bc_bookId pc) (snd (onBookCreated e1 pc c))) = 1 \<and>
         snd (onQuoteAdded e2 pq (snd (onQuoteAdded e1 pq c))) =
           updateOne (qa_bookId pq) (\<lambda>d. pushQuote e2 pq (pushQuote e1 pq d)) c \<and>
         d_quotesCount (pushQuote e2 pq (pushQuote e1 pq d)) = d_quotesCount d + 2 \<and>
         length (d_quotes (pushQuote e2 pq (pushQuote e1 pq d))) = length (d_quotes d) + 2"
proof -
  have updated: "onBookUpdated pu (snd (onBookUpdated pu c)) = onBookUpdated pu c"
    by (simp add: onBookUpdated_def updateOne_idem setUpdateFields_idem setUpdateFields_id)
  have deleted: "onBookDeleted pd (snd (onBookDeleted pd c)) = onBookDeleted pd c"
    using assms by (simp add: onBookDeleted_def deleteOne_idem)
  have created:
    "snd (onBookCreated e2 pc (snd (onBookCreated e1 pc c))) = snd (onBookCreated e1 pc c)"
    by (simp add: onBookCreated_def insertOne_def)
  have one: "length (filter (\<lambda>d. d_id d = bc_bookId pc) (snd (onBookCreated e1 pc c))) = 1"
    using assms by (auto simp: onBookCreated_def insertOne_def count_id_distinct filter_empty_conv)
  have quote: "snd (onQuoteAdded e2 pq (snd (onQuoteAdded e1 pq c))) =
          updateOne (qa_bookId pq) (\<lambda>d. pushQuote e2 pq (pushQuote e1 pq d)) c"
    by (simp add: onQuoteAdded_def updateOne_compose pushQuote_def)
  have count: "d_quotesCount (pushQuote e2 pq (pushQuote e1 pq d)) = d_quotesCount d + 2"
    by (simp add: pushQuote_def)
  have pushed: "length (d_quotes (pushQuote e2 pq (pushQuote e1 pq d))) = length (d_quotes d) + 2"
    by (simp add: pushQuote_def)
  from updated deleted created one quote count pushed show ?thesis
    by blast
qed

theorem projections_applied_twice_witness:
  "distinct (map d_id [doc0]) \<and>
   onBookUpdated updated0 (snd (onBookUpdated updated0 [doc0])) = onBookUpdated updated0 [doc0] \<and>
   onBookDeleted deleted0 (snd (onBookDeleted deleted0 [doc0])) = (Inr (), []) \<and>
   snd (onBookCreated env1 created0 (snd (onBookCreated env0 created0 []))) = [doc0] \<and>
   length (filter (\<lambda>d. d_id d = ''id-1'') (snd (onBookCreated env0 created0 [doc0]))) = 1 \<and>
   map d_quotesCount (snd (onQuoteAdded env1 quoteAdded0 (snd (onQuoteAdded env0 quoteAdded0 [doc0]))))
     = [2]"
proof -
  have d: "distinct (map d_id [doc0])"
    by simp
  have d': "distinct (map d_id ([] :: collection))"
    by simp
  note t = projections_applied_twice [OF d, where pu = updated0 and pd = deleted0
      and pc = created0 and pq = quoteAdded0 and ?e1.0 = env0 and ?e2.0 = env1 and d = doc0]
  note t' = projections_applied_twice [OF d', where pu = updated0 and pd = deleted0
      and pc = created0 and pq = quoteAdded0 and ?e1.0 = env0 and ?e2.0 = env1 and d = doc0]
  have once: "snd (onBookCreated env0 created0 []) = [doc0]"
    by code_simp
  have del: "onBookDeleted deleted0 [doc0] = (Inr (), [])"
    by code_simp
  have bid: "bc_bookId created0 = ''id-1''" "qa_bookId quoteAdded0 = ''id-1''"
    "d_id doc0 = ''id-1''" "d_quotesCount doc0 = 0"
    by (simp_all add: created0_def quoteAdded0_def doc0_def)
  from t t' d once del bid show ?thesis
    by simp
qed

subsection \<open>Saving\<close>

text \<open>
  C9. \<open>save\<close> reads the aggregate and changes only the store: the aggregate's
  \<open>version\<close> is as before (nothing in the repository or the handlers calls
  \<open>incrementVersion\<close>). So whenever \<open>save\<close> has succeeded, saving the same
  instance again, as it is or after further operations (which keep its id and version),
  on the store the first save left and with no other write in between, throws the
  concurrency conflict, and the store stays as the first save left it.
\<close>

theorem save_twice_conflicts:
  assumes "save b db = (Inr (), db')"
    and "bookId b2 = bookId b" and "version b2 = version b"
  shows "save b2 db' =
           (Inl (Error (''Optimistic concurrency conflict for Book '' @ bookId b2)), db')"
proof -
  from assms(2,3) have "updateMatches b2 = updateMatches b"
    by (simp add: updateMatches_def fun_eq_iff)
  with save_then_stale [OF assms(1)] assms(2) show ?thesis
    by (intro save_version_mismatch) simp_all
qed

theorem save_twice_conflicts_witness:
  "save book0 emptyDb = (Inr (), db1) \<and>
   save book0 db1 = (Inl (Error ''Optimistic concurrency conflict for Book id-1''), db1) \<and>
   save (snd (addQuote env1 ''A model is a distillation.'' Undefined book0)) db1
     = (Inl (Error ''Optimistic concurrency conflict for Book id-1''), db1)"
proof -
  have first: "save book0 emptyDb = (Inr (), db1)"
    by code_simp
  have same: "bookId (snd (addQuote env1 ''A model is a distillation.'' Undefined book0))
                = bookId book0"
    "version (snd (addQuote env1 ''A model is a distillation.'' Undefined book0))
                = version book0"
    by code_simp+
  from save_twice_conflicts [OF first, of book0] save_twice_conflicts [OF first same] first same
  show ?thesis
    by (simp add: book0_def)
qed

text \<open>
  C2 fails on the kind of the error. The aggregate was loaded at version 1 and the row is
  at version 2: \<open>save\<close> throws, and the row, the quote and the note are as before; but
  what it throws is a plain \<open>Error\<close>, which has no code, not the
  \<open>ConcurrencyException\<close> (code \<open>CONCURRENCY_CONFLICT\<close>) that DomainException.ts
  defines for concurrency conflicts.
\<close>

theorem save_conflict_is_plain_Error:
  "version staleBook = 1 \<and> map br_version (db_books db2) = [2] \<and>
   save staleBook db2 = (Inl (Error ''Optimistic concurrency conflict for Book id-1''), db2) \<and>
   errorCode (Error ''Optimistic concurrency conflict for Book id-1'') = None \<and>
   errorCode (ConcurrencyException ''Book'' ''id-1'' 1 2) = Some ''CONCURRENCY_CONFLICT'' \<and>
   fst (save staleBook db2) \<noteq> Inl (ConcurrencyException ''Book'' ''id-1'' 1 2)"
  by code_simp

subsection \<open>The command handlers\<close>

text \<open>
  C4. In every execution of the create, update, mark-finished and add-quote handlers,
  started with an empty call log: \<open>publishAll\<close> is called only after a \<open>save\<close> that
  completed, \<open>clearDomainEvents\<close> only after a \<open>publishAll\<close> that completed, and when
  \<open>save\<close> throws the handler throws, publishes nothing, does not clear the outbox, and
  leaves the channel and the store as they were.
\<close>

theorem handlers_persist_then_publish_then_clear:
  assumes "w_calls w = []"
  shows "persistThenPublishThenClear w (CreateBookHandler_execute e c1 w) \<and>
         persistThenPublishThenClear w (UpdateBookHandler_execute e c2 w) \<and>
         persistThenPublishThenClear w (MarkBookAsFinishedHandler_execute e c3 w) \<and>
         persistThenPublishThenClear w (AddQuoteHandler_execute e c4 w)"
  using assms
  by (simp add: orderedRun_order create_ordered update_ordered markAsFinished_ordered
      addQuote_ordered)

theorem handlers_persist_then_publish_then_clear_witness:
  "w_calls world0 = [] \<and> w_calls worldClash = [] \<and>
   persistThenPublishThenClear world0 (CreateBookHandler_execute env0 props0 world0) \<and>
   w_calls (snd (CreateBookHandler_execute env0 props0 world0)) =
     [SaveCall ''id-1'' True, PublishAllCall [createdEvent0] True, ClearDomainEventsCall ''id-1''] \<and>
   persistThenPublishThenClear worldClash (AddQuoteHandler_execute env1 addQuote0 worldClash) \<and>
   AddQuoteHandler_execute env1 addQuote0 worldClash =
     (Inl (Error ''duplicate key value violates unique constraint quotes_pkey''),
      worldClash\<lparr> w_calls := [SaveCall ''id-1'' False] \<rparr>)"
proof -
  have empty: "w_calls world0 = []" "w_calls worldClash = []"
    by (simp_all add: world0_def worldClash_def)
  have run: "w_calls (snd (CreateBookHandler_execute env0 props0 world0)) =
     [SaveCall ''id-1'' True, PublishAllCall [createdEvent0] True, ClearDomainEventsCall ''id-1'']"
    by code_simp
  have clash: "AddQuoteHandler_execute env1 addQuote0 worldClash =
     (Inl (Error ''duplicate key value violates unique constraint quotes_pkey''),
      worldClash\<lparr> w_calls := [SaveCall ''id-1'' False] \<rparr>)"
    by code_simp
  from handlers_persist_then_publish_then_clear [OF empty(1), of env0 props0]
    handlers_persist_then_publish_then_clear [OF empty(2), of env1 _ _ _ addQuote0]
    empty run clash
  show ?thesis
    by simp
qed

subsection \<open>Saving and reading back\<close>

text \<open>
  C5, as the claim states it, fails on the notes' timestamps. A note that was edited has an
  \<open>updatedAt\<close> later than its \<open>createdAt\<close>; after \<open>save\<close>, \<open>findById\<close> returns
  the note with \<open>updatedAt\<close> equal to \<open>createdAt\<close>.
\<close>

theorem note_updatedAt_lost_on_reload:
  "wellFormed noteBook \<and> primaryKeys db1 \<and> writeOnceAgree db1 noteBook \<and>
   save noteBook db1 = (Inr (), db3) \<and>
   map n_updatedAt (notes' noteBook) = [1700000009000] \<and>
   map_sum (\<lambda>x. x) (map_option (\<lambda>b. map n_updatedAt (notes' b))) (findById ''id-1'' db3)
     = Inr (Some [1700000005000]) \<and>
   map_sum (\<lambda>x. x) (map_option notes') (findById ''id-1'' db3) \<noteq> Inr (Some (notes' noteBook))"
  by code_simp

text \<open>
  C5, amended. Let an aggregate be well formed and saved successfully on a store with
  unique primary keys whose write-once columns agree with it. Then \<open>findById\<close> right
  after the save returns an aggregate with the same id, title, authorId, pageCount, isbn,
  yearRead, status, rating, coverUrl, creation and update times and quotes, the same
  notes except that each note's \<open>updatedAt\<close> is its \<open>createdAt\<close>, the version one
  greater than before the save, and an empty outbox.
\<close>

theorem save_then_findById_roundtrip:
  assumes saved: "save b db = (Inr (), db')"
    and wf: "wellFormed b" and keys: "primaryKeys db" and coh: "writeOnceAgree db b"
  shows "findById (bookId b) db' = Inr (Some (reloaded b))"
proof -
  from saved obtain c2 c3 where
    s1: "(if bookId b \<in> set (map br_id (db_books db)) then update_book b db else insert_book b db)
       = (Inr (), c2)"
    and s2: "syncQuotes b c2 = (Inr (), c3)" and s3: "syncNotes b c3 = (Inr (), db')"
    by (rule save_Inr_steps)
  from s1 have "c2 = snd (update_book b db) \<or> c2 = snd (insert_book b db)"
    by (auto split: if_splits)
  then have c2: "db_quotes c2 = db_quotes db" "db_notes c2 = db_notes db"
    by (auto simp: quotes_row_statement)
  from s2 have c3: "db_notes c3 = db_notes c2"
    by (metis notes_syncQuotes snd_conv)
  from s3 have q': "db_quotes db' = db_quotes c3"
    by (metis quotes_syncNotes snd_conv)
  have qrows: "sort_key qr_created_at (filter (\<lambda>r. qr_book_id r = bookId b) (db_quotes c3))
           = map (insertedQuoteRow (bookId b)) (quotes b)"
    using keys wf coh
    by (intro syncQuotes_rows [OF s2])
       (simp_all add: c2 primaryKeys_def wellFormed_def writeOnceAgree_def)
  have nrows: "sort_key nr_created_at (filter (\<lambda>r. nr_book_id r = bookId b) (db_notes db'))
           = map (insertedNoteRow (bookId b)) (notes' b)"
    using keys wf coh
    by (intro syncNotes_rows [OF s3])
       (simp_all add: c2 c3 primaryKeys_def wellFormed_def writeOnceAgree_def)
  have brow: "filter (\<lambda>r. br_id r = bookId b) (db_books db') = [insertedBookRow b]"
    using keys coh
    by (intro book_row_after_save [OF saved]) (simp_all add: primaryKeys_def writeOnceAgree_def)
  show ?thesis
    by (simp add: findById_def brow q' qrows nrows toAggregate_inserted [OF wf])
qed

theorem save_then_findById_roundtrip_witness:
  "save editedBook db2 = (Inr (), db4) \<and> wellFormed editedBook \<and> primaryKeys db2 \<and>
   writeOnceAgree db2 editedBook \<and>
   findById ''id-1'' db4 = Inr (Some (editedBook\<lparr> version := 3 \<rparr>))"
proof -
  have saved: "save editedBook db2 = (Inr (), db4)"
    by code_simp
  have wf: "wellFormed editedBook"
    by code_simp
  have keys: "primaryKeys db2"
    by code_simp
  have coh: "writeOnceAgree db2 editedBook"
    by code_simp
  have same: "reloaded editedBook = editedBook\<lparr> version := 3 \<rparr>" "bookId editedBook = ''id-1''"
    by (simp_all add: reloaded_def editedBook_def loadedBook_def book0_def)
  from save_then_findById_roundtrip [OF saved wf keys coh] saved wf keys coh same
  show ?thesis
    by simp
qed

end
